theory Spec2Isabelle
  imports Complex_Main
begin

unbundle bit_operations_syntax

section \<open>The DZK zone bridge of src/accessories/dzk-bacnet.ts\<close>

text \<open>
  A shallow embedding of the classes \<open>DzkZone\<close> and \<open>DzkZoneAccessory\<close>.

  Conventions of the embedding:
  \<^item> a JavaScript \<open>number\<close> is a \<open>real\<close> (the finite numbers; no claim below depends on
    rounding, \<open>NaN\<close> or the infinities); a configured zone number is an \<open>int\<close>;
  \<^item> a thrown exception or a rejected promise is \<open>Inl e\<close>, a value is \<open>Inr v\<close>;
  \<^item> the static fields of \<open>DzkZone\<close> and everything observable from outside (log lines,
    callbacks, transport requests, in the order they happen) are the record \<open>world\<close>,
    passed through every operation;
  \<^item> the transport (\<open>asyncReadPresentValue\<close>, \<open>asyncWritePresentValue\<close> of
    \<open>../bacnet/bacnet\<close>) is a parameter: a function giving the outcome of each request.
    \<open>objectStringParser\<close> of \<open>../bacnet/parser\<close> is not part of this file either; an object
    is referred to by its directory string (\<open>''AV:16''\<close>), and the envelope
    \<open>{values: [{value}]}\<close> of a response by the number it carries.
\<close>

subsection \<open>Constants of the HAP characteristics and of the device\<close>

type_synonym number = real

definition TemperatureDisplayUnits_CELSIUS :: number where "TemperatureDisplayUnits_CELSIUS = 0"
definition TemperatureDisplayUnits_FAHRENHEIT :: number where "TemperatureDisplayUnits_FAHRENHEIT = 1"

definition CurrentHeatingCoolingState_OFF :: number where "CurrentHeatingCoolingState_OFF = 0"
definition CurrentHeatingCoolingState_HEAT :: number where "CurrentHeatingCoolingState_HEAT = 1"
definition CurrentHeatingCoolingState_COOL :: number where "CurrentHeatingCoolingState_COOL = 2"

definition TargetHeatingCoolingState_OFF :: number where "TargetHeatingCoolingState_OFF = 0"
definition TargetHeatingCoolingState_HEAT :: number where "TargetHeatingCoolingState_HEAT = 1"
definition TargetHeatingCoolingState_COOL :: number where "TargetHeatingCoolingState_COOL = 2"
definition TargetHeatingCoolingState_AUTO :: number where "TargetHeatingCoolingState_AUTO = 3"

definition CurrentFanState_INACTIVE :: number where "CurrentFanState_INACTIVE = 0"
definition CurrentFanState_IDLE :: number where "CurrentFanState_IDLE = 1"
definition CurrentFanState_BLOWING_AIR :: number where "CurrentFanState_BLOWING_AIR = 2"

definition DzkOperationMode_AUTO :: number where "DzkOperationMode_AUTO = 1"
definition DzkOperationMode_COOL :: number where "DzkOperationMode_COOL = 2"
definition DzkOperationMode_HEAT :: number where "DzkOperationMode_HEAT = 3"
definition DzkOperationMode_DRY :: number where "DzkOperationMode_DRY = 4"

subsection \<open>Unit conversion\<close>

definition f2c :: "number \<Rightarrow> number" where
  "f2c ff = ((ff - 32) * 5) / 9"

definition c2f :: "number \<Rightarrow> number" where
  "c2f cc = (cc * 9) / 5 + 32"

subsection \<open>The object directory \<open>DzkZone.dzk_objects\<close>\<close>

text \<open>
  \<open>class DzkBacObject { n; d; rw }\<close>. The fields carry the prefix \<open>ob_\<close> here, since a
  record field is a constant of the theory and \<open>n\<close> and \<open>d\<close> are wanted as variables.
\<close>

record DzkBacObject =
  ob_n :: string
  ob_d :: string
  ob_rw :: string

definition global_scope :: "(string \<times> DzkBacObject) list" where
  "global_scope =
   [(''iu-status-onoff'', \<lparr>ob_n = ''BI:0'', ob_d = ''IU Status ON/OFF'', ob_rw = ''R''\<rparr>),
    (''dzk-system-input-alarm'', \<lparr>ob_n = ''BI:1'', ob_d = ''DZK system input alarm'', ob_rw = ''R''\<rparr>),
    (''dzk-global-fan'', \<lparr>ob_n = ''BV:0'', ob_d = ''DZK Global Fan'', ob_rw = ''R''\<rparr>),
    (''dzk-aux-heat1'', \<lparr>ob_n = ''BV:1'', ob_d = ''DZK Aux Heat1'', ob_rw = ''R''\<rparr>),
    (''dzk-aux-heat2'', \<lparr>ob_n = ''BV:2'', ob_d = ''DZK Aux Heat2'', ob_rw = ''R''\<rparr>),
    (''dzk-bacnet-communication-error'', \<lparr>ob_n = ''BV:27'', ob_d = ''DZK/BACnet Interface communication error'', ob_rw = ''R''\<rparr>),
    (''iu-speed'', \<lparr>ob_n = ''MI:0'', ob_d = ''IU speed'', ob_rw = ''R''\<rparr>),
    (''iu-errors'', \<lparr>ob_n = ''MI:1'', ob_d = ''IU errors'', ob_rw = ''R''\<rparr>),
    (''dzk-error'', \<lparr>ob_n = ''MI:2'', ob_d = ''DZK error'', ob_rw = ''R''\<rparr>),
    (''dzk-operation-mode'', \<lparr>ob_n = ''MO:0'', ob_d = ''DZK operation mode'', ob_rw = ''R/W''\<rparr>),
    (''dzk-user-mode'', \<lparr>ob_n = ''MO:1'', ob_d = ''DZK user mode'', ob_rw = ''R/W''\<rparr>),
    (''iu-set-point'', \<lparr>ob_n = ''AV:0'', ob_d = ''IU Set Point'', ob_rw = '' R/W''\<rparr>),
    (''dzk-address'', \<lparr>ob_n = ''AV:13'', ob_d = ''DZK address (DK AirNet address)'', ob_rw = ''R''\<rparr>),
    (''dzk-group-address'', \<lparr>ob_n = ''AV:14'', ob_d = ''DZK group address (DK group address)'', ob_rw = ''R''\<rparr>)]"

definition zone1 :: "(string \<times> DzkBacObject) list" where
  "zone1 =
   [(''onoff'', \<lparr>ob_n = ''BV:3'', ob_d = ''Z1 ON/OFF'', ob_rw = ''R/W''\<rparr>),
    (''local-ventilation'', \<lparr>ob_n = ''BV:4'', ob_d = ''Z1 Local Ventilation'', ob_rw = ''R/W''\<rparr>),
    (''vacation-override'', \<lparr>ob_n = ''BV:5'', ob_d = ''Z1 Vacation override'', ob_rw = ''R''\<rparr>),
    (''unoccupied-override'', \<lparr>ob_n = ''BV:6'', ob_d = ''Z1 Unoccupied override'', ob_rw = ''R''\<rparr>),
    (''room-temperature'', \<lparr>ob_n = ''AI:0'', ob_d = ''Z1 Room temperature'', ob_rw = ''R''\<rparr>),
    (''heat-set-point'', \<lparr>ob_n = ''AV:1'', ob_d = ''Z1 Heat Set Point'', ob_rw = ''R/W''\<rparr>),
    (''cold-set-point'', \<lparr>ob_n = ''AV:2'', ob_d = ''Z1 Cold Set Point'', ob_rw = ''R/W''\<rparr>),
    (''humidity'', \<lparr>ob_n = ''AV:33'', ob_d = ''Z1 humidity'', ob_rw = ''R''\<rparr>),
    (''cooling-demand'', \<lparr>ob_n = ''AV:15'', ob_d = ''Z1 cooling demand (%)'', ob_rw = ''R''\<rparr>),
    (''heating-demand'', \<lparr>ob_n = ''AV:16'', ob_d = ''Z1 heating demand (%)'', ob_rw = ''R''\<rparr>),
    (''aux-heating-demand-(%)'', \<lparr>ob_n = ''AV:17'', ob_d = ''Z1 aux heating demand (%)'', ob_rw = ''R''\<rparr>),
    (''opening-step-damper'', \<lparr>ob_n = ''MV:0'', ob_d = ''Z1 opening step damper'', ob_rw = ''R''\<rparr>)]"

definition zone2 :: "(string \<times> DzkBacObject) list" where
  "zone2 =
   [(''onoff'', \<lparr>ob_n = ''BV:7'', ob_d = ''Z2 ON/OFF'', ob_rw = ''R/W''\<rparr>),
    (''local-ventilation'', \<lparr>ob_n = ''BV:8'', ob_d = ''Z2 Local ventilation'', ob_rw = ''R/W''\<rparr>),
    (''vacation-override'', \<lparr>ob_n = ''BV:9'', ob_d = ''Z2 Vacation override'', ob_rw = ''R''\<rparr>),
    (''unoccupied-override'', \<lparr>ob_n = ''BV:10'', ob_d = ''Z2 Unoccupied override'', ob_rw = ''R''\<rparr>),
    (''room-temperature'', \<lparr>ob_n = ''AI:1'', ob_d = ''Z2 Room temperature'', ob_rw = ''R''\<rparr>),
    (''heat-set-point'', \<lparr>ob_n = ''AV:3'', ob_d = ''Z2 Heat Set Point'', ob_rw = ''R/W''\<rparr>),
    (''cold-set-point'', \<lparr>ob_n = ''AV:4'', ob_d = ''Z2 Cold Set Point'', ob_rw = ''R/W''\<rparr>),
    (''cooling-demand'', \<lparr>ob_n = ''AV:18'', ob_d = ''Z2 cooling demand (%)'', ob_rw = ''R''\<rparr>),
    (''heating-demand'', \<lparr>ob_n = ''AV:19'', ob_d = ''Z2 heating demand (%)'', ob_rw = ''R''\<rparr>),
    (''aux-heating-demand'', \<lparr>ob_n = ''AV:20'', ob_d = ''Z2 aux heating demand (%)'', ob_rw = ''R''\<rparr>),
    (''humidity'', \<lparr>ob_n = ''AV:34'', ob_d = ''Z2 humidity'', ob_rw = ''R''\<rparr>),
    (''opening-step-damper'', \<lparr>ob_n = ''MV:1'', ob_d = ''Z2 opening step damper'', ob_rw = ''R''\<rparr>)]"

definition zone3 :: "(string \<times> DzkBacObject) list" where
  "zone3 =
   [(''onoff'', \<lparr>ob_n = ''BV:11'', ob_d = ''Z3 ON/OFF'', ob_rw = ''R/W''\<rparr>),
    (''local-ventilation'', \<lparr>ob_n = ''BV:12'', ob_d = ''Z3 Local ventilation'', ob_rw = ''R/W''\<rparr>),
    (''vacation-override'', \<lparr>ob_n = ''BV:13'', ob_d = ''Z3 Vacation override'', ob_rw = ''R''\<rparr>),
    (''unoccupied-override'', \<lparr>ob_n = ''BV:14'', ob_d = ''Z3 Unoccupied override'', ob_rw = ''R''\<rparr>),
    (''room-temperature'', \<lparr>ob_n = ''AI:2'', ob_d = ''Z3 Room temperature'', ob_rw = ''R''\<rparr>),
    (''heat-set-point'', \<lparr>ob_n = ''AV:5'', ob_d = ''Z3 Heat Set Point'', ob_rw = ''R/W''\<rparr>),
    (''cold-set-point'', \<lparr>ob_n = ''AV:6'', ob_d = ''Z3 Cold Set Point'', ob_rw = ''R/W''\<rparr>),
    (''cooling-demand'', \<lparr>ob_n = ''AV:21'', ob_d = ''Z3 cooling demand (%)'', ob_rw = ''R''\<rparr>),
    (''heating-demand'', \<lparr>ob_n = ''AV:22'', ob_d = ''Z3 heating demand (%)'', ob_rw = ''R''\<rparr>),
    (''aux-heating-demand'', \<lparr>ob_n = ''AV:23'', ob_d = ''Z3 aux heating demand (%)'', ob_rw = ''R''\<rparr>),
    (''humidity'', \<lparr>ob_n = ''AV:35'', ob_d = ''Z3 humidity'', ob_rw = ''R''\<rparr>),
    (''opening-step-damper'', \<lparr>ob_n = ''MV:2'', ob_d = ''Z3 opening step damper'', ob_rw = ''R''\<rparr>)]"

definition zone4 :: "(string \<times> DzkBacObject) list" where
  "zone4 =
   [(''onoff'', \<lparr>ob_n = ''BV:15'', ob_d = ''Z4 ON/OFF'', ob_rw = ''R/W''\<rparr>),
    (''local-ventilation'', \<lparr>ob_n = ''BV:16'', ob_d = ''Z4 Local ventilation'', ob_rw = ''R/W''\<rparr>),
    (''vacation-override'', \<lparr>ob_n = ''BV:17'', ob_d = ''Z4 Vacation override'', ob_rw = ''R''\<rparr>),
    (''unoccupied-override'', \<lparr>ob_n = ''BV:18'', ob_d = ''Z4 Unoccupied override'', ob_rw = ''R''\<rparr>),
    (''room-temperature'', \<lparr>ob_n = ''AI:3'', ob_d = ''Z4 Room temperature'', ob_rw = ''R''\<rparr>),
    (''heat-set-point'', \<lparr>ob_n = ''AV:7'', ob_d = ''Z4 Heat Set Point'', ob_rw = ''R/W''\<rparr>),
    (''cold-set-point'', \<lparr>ob_n = ''AV:8'', ob_d = ''Z4 Cold Set Point'', ob_rw = ''R/W''\<rparr>),
    (''cooling-demand'', \<lparr>ob_n = ''AV:24'', ob_d = ''Z4 cooling demand (%)'', ob_rw = ''R''\<rparr>),
    (''heating-demand'', \<lparr>ob_n = ''AV:25'', ob_d = ''Z4 heating demand (%)'', ob_rw = ''R''\<rparr>),
    (''aux-heating-demand'', \<lparr>ob_n = ''AV:26'', ob_d = ''Z4 aux heating demand (%)'', ob_rw = ''R''\<rparr>),
    (''humidity'', \<lparr>ob_n = ''AV:36'', ob_d = ''Z4 humidity'', ob_rw = ''R''\<rparr>),
    (''opening-step-damper'', \<lparr>ob_n = ''MV:3'', ob_d = ''Z4 opening step damper'', ob_rw = ''R''\<rparr>)]"

definition zone5 :: "(string \<times> DzkBacObject) list" where
  "zone5 =
   [(''onoff'', \<lparr>ob_n = ''BV:19'', ob_d = ''Z5 ON/OFF'', ob_rw = ''R/W''\<rparr>),
    (''local-ventilation'', \<lparr>ob_n = ''BV:20'', ob_d = ''Z5 Local ventilation'', ob_rw = ''R/W''\<rparr>),
    (''vacation-override'', \<lparr>ob_n = ''BV:21'', ob_d = ''Z5 Vacation override'', ob_rw = ''R''\<rparr>),
    (''unoccupied-override'', \<lparr>ob_n = ''BV:22'', ob_d = ''Z5 Unoccupied override'', ob_rw = ''R''\<rparr>),
    (''room-temperature'', \<lparr>ob_n = ''AI:4'', ob_d = ''Z5 Room temperature'', ob_rw = '' R''\<rparr>),
    (''heat-set-point'', \<lparr>ob_n = ''AV:9'', ob_d = ''Z5 Heat Set Point'', ob_rw = ''R/W''\<rparr>),
    (''cold-set-point'', \<lparr>ob_n = ''AV:10'', ob_d = ''Z5 Cold Set Point'', ob_rw = ''R/W''\<rparr>),
    (''cooling-demand'', \<lparr>ob_n = ''AV:27'', ob_d = ''Z5 cooling demand (%)'', ob_rw = ''R''\<rparr>),
    (''heating-demand'', \<lparr>ob_n = ''AV:28'', ob_d = ''Z5 heating demand (%)'', ob_rw = ''R''\<rparr>),
    (''aux-heating-demand'', \<lparr>ob_n = ''AV:29'', ob_d = ''Z5 aux heating demand (%)'', ob_rw = ''R''\<rparr>),
    (''humidity'', \<lparr>ob_n = ''AV:37'', ob_d = ''Z5 humidity'', ob_rw = ''R''\<rparr>),
    (''opening-step-damper'', \<lparr>ob_n = ''MV:4'', ob_d = ''Z5 opening step damper'', ob_rw = ''R''\<rparr>)]"

definition zone6 :: "(string \<times> DzkBacObject) list" where
  "zone6 =
   [(''onoff'', \<lparr>ob_n = ''BV:23'', ob_d = ''Z6 ON/OFF'', ob_rw = ''R/W''\<rparr>),
    (''local-ventilation'', \<lparr>ob_n = ''BV:24'', ob_d = ''Z6 Local ventilation'', ob_rw = ''R/W''\<rparr>),
    (''vacation-override'', \<lparr>ob_n = ''BV:25'', ob_d = ''Z6 Vacation override'', ob_rw = ''R''\<rparr>),
    (''unoccupied-override'', \<lparr>ob_n = ''BV:26'', ob_d = ''Z6 Unoccupied override'', ob_rw = ''R''\<rparr>),
    (''room-temperature'', \<lparr>ob_n = ''AI:5'', ob_d = ''Z6 Room temperature'', ob_rw = '' R''\<rparr>),
    (''heat-set-point'', \<lparr>ob_n = ''AV:11'', ob_d = ''Z6 Heat Set Point'', ob_rw = ''R/W''\<rparr>),
    (''cold-set-point'', \<lparr>ob_n = ''AV:12'', ob_d = ''Z6 Cold Set Point'', ob_rw = ''R/W''\<rparr>),
    (''cooling-demand'', \<lparr>ob_n = ''AV:30'', ob_d = ''Z6 cooling demand (%)'', ob_rw = ''R''\<rparr>),
    (''heating-demand'', \<lparr>ob_n = ''AV:31'', ob_d = ''Z6 heating demand (%)'', ob_rw = ''R''\<rparr>),
    (''aux-heating-demand'', \<lparr>ob_n = ''AV:32'', ob_d = ''Z6 aux heating demand (%)'', ob_rw = ''R''\<rparr>),
    (''humidity'', \<lparr>ob_n = ''AV:38'', ob_d = ''Z6 humidity'', ob_rw = ''R''\<rparr>),
    (''opening-step-damper'', \<lparr>ob_n = ''MV:5'', ob_d = ''Z6 opening step damper'', ob_rw = ''R''\<rparr>)]"

text \<open>
  The object literal itself: a scope name gives the scope's entries, a name that is not
  a property of the literal gives \<open>undefined\<close> (\<open>None\<close>).
\<close>

definition dzk_objects_table :: "(string \<times> (string \<times> DzkBacObject) list) list" where
  "dzk_objects_table =
   [(''global'', global_scope), (''zone1'', zone1), (''zone2'', zone2), (''zone3'', zone3),
    (''zone4'', zone4), (''zone5'', zone5), (''zone6'', zone6)]"

definition dzk_objects :: "string \<Rightarrow> (string \<times> DzkBacObject) list option" where
  "dzk_objects scope = map_of dzk_objects_table scope"

subsection \<open>A number appended to a string\<close>

text \<open>
  \<open>"zone" + zno\<close> appends the decimal form of the number. (Beyond \<open>10^21\<close> JavaScript
  switches to exponent notation; such a string names no scope either.)
\<close>

definition digit_char :: "nat \<Rightarrow> char" where
  "digit_char k =
     (if k = 0 then CHR ''0'' else if k = 1 then CHR ''1'' else if k = 2 then CHR ''2''
      else if k = 3 then CHR ''3'' else if k = 4 then CHR ''4'' else if k = 5 then CHR ''5''
      else if k = 6 then CHR ''6'' else if k = 7 then CHR ''7'' else if k = 8 then CHR ''8''
      else CHR ''9'')"

function string_of_nat :: "nat \<Rightarrow> string" where
  "string_of_nat k =
     (if k < 10 then [digit_char k] else string_of_nat (k div 10) @ [digit_char (k mod 10)])"
  by pat_completeness auto
termination
  by (relation "measure id") auto

declare string_of_nat.simps [simp del]

definition string_of_int :: "int \<Rightarrow> string" where
  "string_of_int i = (if i < 0 then CHR ''-'' # string_of_nat (nat (- i)) else string_of_nat (nat i))"

subsection \<open>Mode translation\<close>

definition to_hap_target_heatcool_state :: "number \<Rightarrow> number" where
  "to_hap_target_heatcool_state dzk =
     (if dzk = DzkOperationMode_AUTO then TargetHeatingCoolingState_AUTO
      else if dzk = DzkOperationMode_COOL then TargetHeatingCoolingState_COOL
      else if dzk = DzkOperationMode_HEAT then TargetHeatingCoolingState_HEAT
      else if dzk = DzkOperationMode_DRY then TargetHeatingCoolingState_COOL
      else 0)"

definition to_hap_fanstate :: "number \<Rightarrow> number" where
  "to_hap_fanstate dzk = (if dzk = 0 then CurrentFanState_INACTIVE else CurrentFanState_BLOWING_AIR)"

definition from_hap_target_heatcool_state :: "number \<Rightarrow> number" where
  "from_hap_target_heatcool_state hap =
     (if hap = TargetHeatingCoolingState_HEAT then DzkOperationMode_HEAT
      else if hap = TargetHeatingCoolingState_COOL then DzkOperationMode_COOL
      else if hap = TargetHeatingCoolingState_AUTO then DzkOperationMode_AUTO
      else if hap = TargetHeatingCoolingState_OFF then DzkOperationMode_AUTO
      else DzkOperationMode_AUTO)"

subsection \<open>Errors, observable events and the shared state\<close>

text \<open>
  \<open>TypeError\<close> is what reading a property of \<open>undefined\<close> throws; \<open>TransportError\<close>
  stands for whatever the transport rejects a request with.
\<close>

datatype error = TypeError | TransportError

datatype ApplicationTags = BACNET_APPLICATION_TAG_UNSIGNED_INT

text \<open>What a write carries: \<open>number | ValueObject\<close>.\<close>

datatype pv_value = PlainNumber number | ValueObject ApplicationTags number

text \<open>
  Everything the code does that is visible from outside. \<open>LogError op z e\<close> is the line
  \<open>`${op}.zone${z}: An error occured: ${e}`\<close>; \<open>Callback err v\<close> is a call
  \<open>callback(err, v)\<close> of the homebridge callback (\<open>callback(null)\<close> is
  \<open>Callback None None\<close>); \<open>ReadPV\<close> and \<open>WritePV\<close> are the requests handed to the
  transport. Of a log line with several arguments the first one is kept, and of a number
  appended to the text of a log line only a zone number.
\<close>

datatype event =
    LogDebug string
  | LogInfo string
  | LogError string int error
  | Callback "error option" "number option"
  | ReadPV string string
  | WritePV string string pv_value

text \<open>
  \<open>DzkZone_ipAddress\<close> and \<open>DzkZone_dzk_opmode\<close> are the static fields
  \<open>DzkZone.ipAddress\<close> and \<open>DzkZone.dzk_opmode\<close>. \<open>pending\<close> holds the requests of the
  promises nobody awaits (started by the constructor of \<open>DzkZone\<close>) that have not settled
  yet, \<open>unhandled\<close> the errors such promises were rejected with: no handler is attached
  to them.
\<close>

record world =
  DzkZone_ipAddress :: string
  DzkZone_dzk_opmode :: number
  trace :: "event list"
  pending :: "(string \<times> string) list"
  unhandled :: "error list"

definition initial_world :: world where
  "initial_world =
     \<lparr>DzkZone_ipAddress = [], DzkZone_dzk_opmode = - 1, trace = [], pending = [],
      unhandled = []\<rparr>"

definition emit :: "event \<Rightarrow> world \<Rightarrow> world" where
  "emit e w = w\<lparr>trace := trace w @ [e]\<rparr>"

record transport =
  read_pv :: "string \<Rightarrow> string \<Rightarrow> error + number"
  write_pv :: "string \<Rightarrow> string \<Rightarrow> pv_value \<Rightarrow> error + number"

definition asyncReadPresentValue ::
  "transport \<Rightarrow> string \<Rightarrow> string \<Rightarrow> world \<Rightarrow> (error + number) \<times> world" where
  "asyncReadPresentValue net addr po w = (read_pv net addr po, emit (ReadPV addr po) w)"

definition asyncWritePresentValue ::
  "transport \<Rightarrow> string \<Rightarrow> string \<Rightarrow> pv_value \<Rightarrow> world \<Rightarrow> (error + number) \<times> world" where
  "asyncWritePresentValue net addr po val w =
     (write_pv net addr po val, emit (WritePV addr po val) w)"

subsection \<open>The class \<open>DzkZone\<close>\<close>

record DzkZone =
  zno :: int
  dzkob :: "(string \<times> DzkBacObject) list option"
  lastDemand :: number

text \<open>
  \<open>objectStringParser(DzkZone.dzk_objects["global"][id]["n"])\<close>: the object to address, or
  the \<open>TypeError\<close> of a key the scope does not have.
\<close>

definition global_object :: "string \<Rightarrow> error + string" where
  "global_object id' =
     (case dzk_objects ''global'' of
        None \<Rightarrow> Inl TypeError
      | Some sc \<Rightarrow> (case map_of sc id' of None \<Rightarrow> Inl TypeError | Some ob \<Rightarrow> Inr (ob_n ob)))"

text \<open>\<open>objectStringParser(this.dzkob[id]["n"])\<close>, likewise.\<close>

definition zone_object :: "DzkZone \<Rightarrow> string \<Rightarrow> error + string" where
  "zone_object this id' =
     (case dzkob this of
        None \<Rightarrow> Inl TypeError
      | Some sc \<Rightarrow> (case map_of sc id' of None \<Rightarrow> Inl TypeError | Some ob \<Rightarrow> Inr (ob_n ob)))"

definition getGlobalPv :: "transport \<Rightarrow> string \<Rightarrow> world \<Rightarrow> (error + number) \<times> world" where
  "getGlobalPv net id' w =
     (case global_object id' of
        Inl e \<Rightarrow> (Inl e, w)
      | Inr po \<Rightarrow> asyncReadPresentValue net (DzkZone_ipAddress w) po w)"

definition setGlobalPv ::
  "transport \<Rightarrow> string \<Rightarrow> pv_value \<Rightarrow> world \<Rightarrow> (error + number) \<times> world" where
  "setGlobalPv net id' val w =
     (case global_object id' of
        Inl e \<Rightarrow> (Inl e, w)
      | Inr po \<Rightarrow> asyncWritePresentValue net (DzkZone_ipAddress w) po val w)"

definition getZonePv ::
  "transport \<Rightarrow> DzkZone \<Rightarrow> string \<Rightarrow> world \<Rightarrow> (error + number) \<times> world" where
  "getZonePv net this id' w =
     (case zone_object this id' of
        Inl e \<Rightarrow> (Inl e, w)
      | Inr po \<Rightarrow> asyncReadPresentValue net (DzkZone_ipAddress w) po w)"

definition setZonePv ::
  "transport \<Rightarrow> DzkZone \<Rightarrow> string \<Rightarrow> pv_value \<Rightarrow> world \<Rightarrow> (error + number) \<times> world" where
  "setZonePv net this id' val w =
     (case zone_object this id' of
        Inl e \<Rightarrow> (Inl e, w)
      | Inr po \<Rightarrow> asyncWritePresentValue net (DzkZone_ipAddress w) po val w)"

text \<open>
  \<open>async getTargetHeatingCoolingState()\<close> in two halves, split at its \<open>await\<close>: what runs
  when it is called (the log line and the request), and what runs when the request has
  settled.
\<close>

definition getTargetHeatingCoolingState_begin ::
  "world \<Rightarrow> (error + string \<times> string) \<times> world" where
  "getTargetHeatingCoolingState_begin w =
     (let w1 = emit (LogDebug ''DzkZone.getTargetHeatingCoolingState'') w
      in case global_object ''dzk-operation-mode'' of
           Inl e \<Rightarrow> (Inl e, w1)
         | Inr po \<Rightarrow> (Inr (DzkZone_ipAddress w1, po), emit (ReadPV (DzkZone_ipAddress w1) po) w1))"

definition getTargetHeatingCoolingState_resume ::
  "error + number \<Rightarrow> world \<Rightarrow> (error + number) \<times> world" where
  "getTargetHeatingCoolingState_resume prop w =
     (case prop of
        Inl e \<Rightarrow> (Inl e, w)
      | Inr v \<Rightarrow> (Inr v, w\<lparr>DzkZone_dzk_opmode := v\<rparr>))"

text \<open>The call awaited by its caller.\<close>

definition DzkZone_getTargetHeatingCoolingState ::
  "transport \<Rightarrow> world \<Rightarrow> (error + number) \<times> world" where
  "DzkZone_getTargetHeatingCoolingState net w =
     (case getTargetHeatingCoolingState_begin w of
        (Inl e, w1) \<Rightarrow> (Inl e, w1)
      | (Inr (addr, po), w1) \<Rightarrow> getTargetHeatingCoolingState_resume (read_pv net addr po) w1)"

text \<open>
  The call nobody awaits, \<open>this.getTargetHeatingCoolingState();\<close> in the constructor: its
  first half runs, the request stays pending, and a rejection has no handler.
\<close>

definition getTargetHeatingCoolingState_detached :: "world \<Rightarrow> world" where
  "getTargetHeatingCoolingState_detached w =
     (case getTargetHeatingCoolingState_begin w of
        (Inl e, w1) \<Rightarrow> w1\<lparr>unhandled := unhandled w1 @ [e]\<rparr>
      | (Inr req, w1) \<Rightarrow> w1\<lparr>pending := pending w1 @ [req]\<rparr>)"

text \<open>The oldest pending request settles with the outcome \<open>prop\<close>.\<close>

definition settle_detached :: "error + number \<Rightarrow> world \<Rightarrow> world" where
  "settle_detached prop w =
     (case pending w of
        [] \<Rightarrow> w
      | req # reqs \<Rightarrow>
          (case getTargetHeatingCoolingState_resume prop (w\<lparr>pending := reqs\<rparr>) of
             (Inl e, w1) \<Rightarrow> w1\<lparr>unhandled := unhandled w1 @ [e]\<rparr>
           | (Inr v, w1) \<Rightarrow> w1))"

definition DzkZone_constructor :: "int \<Rightarrow> world \<Rightarrow> DzkZone \<times> world" where
  "DzkZone_constructor zno' w =
     (let w1 = emit (LogDebug (''DzkZone Constructor: zone'' @ string_of_int zno')) w;
          this = \<lparr>zno = zno', dzkob = dzk_objects (''zone'' @ string_of_int zno'),
                  lastDemand = 0\<rparr>
      in if DzkZone_dzk_opmode w1 = - 1
         then (this, getTargetHeatingCoolingState_detached w1)
         else (this, w1))"

definition DzkZone_getCurrentHeatingCoolingState ::
  "transport \<Rightarrow> DzkZone \<Rightarrow> world \<Rightarrow> (error + number) \<times> DzkZone \<times> world" where
  "DzkZone_getCurrentHeatingCoolingState net this w =
     (case getZonePv net this ''heating-demand'' w of
        (Inl e, w1) \<Rightarrow> (Inl e, this, w1)
      | (Inr hd', w1) \<Rightarrow>
          (case getZonePv net this ''cooling-demand'' w1 of
             (Inl e, w2) \<Rightarrow> (Inl e, this, w2)
           | (Inr cd', w2) \<Rightarrow>
               (let pred = (if cd' > 0 then 2 else 0) OR (if hd' > 0 then 1 else (0::int));
                    this' = (if hd' > 0 \<or> cd' > 0 then this\<lparr>lastDemand := hd' - cd'\<rparr> else this);
                    rv = (if pred = 0 then 0
                          else if pred = 1 then 1
                          else if pred = 2 then 2
                          else if pred = 3 then 0
                          else 0)
                in (Inr rv, this', w2))))"

definition DzkZone_setTargetHeatingCoolingState ::
  "transport \<Rightarrow> number \<Rightarrow> world \<Rightarrow> (error + number) \<times> world" where
  "DzkZone_setTargetHeatingCoolingState net newState w =
     (let w1 = emit (LogDebug ''DzkZone.setTargetHeatingCoolingState: '') w
      in case setGlobalPv net ''dzk-operation-mode''
                (ValueObject BACNET_APPLICATION_TAG_UNSIGNED_INT newState) w1 of
           (Inl e, w2) \<Rightarrow> (Inl e, w2)
         | (Inr r, w2) \<Rightarrow> (Inr newState, w2\<lparr>DzkZone_dzk_opmode := newState\<rparr>))"

definition DzkZone_getCurrentTemperature ::
  "transport \<Rightarrow> DzkZone \<Rightarrow> world \<Rightarrow> (error + number) \<times> world" where
  "DzkZone_getCurrentTemperature net this w = getZonePv net this ''room-temperature'' w"

definition DzkZone_getCurrentFanState :: "transport \<Rightarrow> world \<Rightarrow> (error + number) \<times> world" where
  "DzkZone_getCurrentFanState net w = getGlobalPv net ''dzk-global-fan'' w"

definition DzkZone_getCurrentRelativeHumidity ::
  "transport \<Rightarrow> DzkZone \<Rightarrow> world \<Rightarrow> (error + number) \<times> world" where
  "DzkZone_getCurrentRelativeHumidity net this w = getZonePv net this ''humidity'' w"

definition getHeatSetpoint :: "transport \<Rightarrow> DzkZone \<Rightarrow> world \<Rightarrow> (error + number) \<times> world" where
  "getHeatSetpoint net this w = getZonePv net this ''heat-set-point'' w"

definition setHeatSetpoint ::
  "transport \<Rightarrow> DzkZone \<Rightarrow> number \<Rightarrow> world \<Rightarrow> (error + number) \<times> world" where
  "setHeatSetpoint net this newTemp w =
     setZonePv net this ''heat-set-point'' (PlainNumber newTemp) w"

definition getCoolSetpoint :: "transport \<Rightarrow> DzkZone \<Rightarrow> world \<Rightarrow> (error + number) \<times> world" where
  "getCoolSetpoint net this w = getZonePv net this ''cold-set-point'' w"

definition setCoolSetpoint ::
  "transport \<Rightarrow> DzkZone \<Rightarrow> number \<Rightarrow> world \<Rightarrow> (error + number) \<times> world" where
  "setCoolSetpoint net this newTemp w =
     setZonePv net this ''cold-set-point'' (PlainNumber newTemp) w"

text \<open>
  The object name the \<open>switch\<close> of \<open>getTargetTemperature\<close> and of \<open>setTargetTemperature\<close>
  leaves in \<open>bac_ob\<close> (the two switches are the same text); where no case matches,
  \<open>bac_ob\<close> keeps its initial \<open>""\<close>.
\<close>

definition switch_bac_ob :: "number \<Rightarrow> number \<Rightarrow> string" where
  "switch_bac_ob opmode lastDemand' =
     (if opmode = DzkOperationMode_AUTO \<or> opmode = DzkOperationMode_DRY
        then (if lastDemand' > 0 then ''heat-set-point'' else ''cold-set-point'')
      else if opmode = DzkOperationMode_COOL then ''cold-set-point''
      else if opmode = DzkOperationMode_HEAT then ''heat-set-point''
      else [])"

definition DzkZone_getTargetTemperature ::
  "transport \<Rightarrow> DzkZone \<Rightarrow> world \<Rightarrow> (error + number) \<times> world" where
  "DzkZone_getTargetTemperature net this w =
     (let w1 = emit (LogInfo (''DzkZone.getTargetTemperature zone'' @ string_of_int (zno this)
                                @ ''.lastDemand: '')) w;
          bac_ob = switch_bac_ob (DzkZone_dzk_opmode w1) (lastDemand this)
      in getZonePv net this bac_ob w1)"

text \<open>\<open>setTargetTemperature\<close> computes \<open>bac_ob\<close> and then does not use it.\<close>

definition DzkZone_setTargetTemperature ::
  "transport \<Rightarrow> DzkZone \<Rightarrow> number \<Rightarrow> world \<Rightarrow> (error + number) \<times> world" where
  "DzkZone_setTargetTemperature net this newTemp w =
     (let w1 = emit (LogInfo (''DzkZone.setTargetTemperature zone'' @ string_of_int (zno this)
                                @ ''.lastDemand: '')) w;
          bac_ob = switch_bac_ob (DzkZone_dzk_opmode w1) (lastDemand this)
      in setZonePv net this
           (if lastDemand this > 0 then ''heat-set-point'' else ''cold-set-point'')
           (PlainNumber newTemp) w1)"

subsection \<open>The class \<open>DzkZoneAccessory\<close>\<close>

record InternalStates =
  currentHeatingCoolingState :: number
  targetHeatingCoolingState :: number
  currentTemperature :: number
  currentFanState :: number
  coolSetpoint :: number
  heatSetpoint :: number
  targetTemperature :: number
  relativeHumidity :: number
  temperatureDisplayUnits :: number

text \<open>The initialiser of the field \<open>internalStates\<close>.\<close>

definition initial_internalStates :: InternalStates where
  "initial_internalStates =
     \<lparr>currentHeatingCoolingState = CurrentHeatingCoolingState_OFF,
      targetHeatingCoolingState = TargetHeatingCoolingState_OFF,
      currentTemperature = 20.5,
      currentFanState = 0,
      coolSetpoint = 23.5,
      heatSetpoint = 21.5,
      targetTemperature = 22.0,
      relativeHumidity = 42.2,
      temperatureDisplayUnits = TemperatureDisplayUnits_FAHRENHEIT\<rparr>"

record DzkZoneConfig =
  name :: string
  zone :: int

record DzkConfig =
  ipAddress :: string
  zones :: "DzkZoneConfig list"

text \<open>
  \<open>zconfig\<close> is \<open>accessory.context.device\<close>, so \<open>zone (zconfig this)\<close> is the
  \<open>this.accessory.context.device.zone\<close> of the log lines.
\<close>

record DzkZoneAccessory =
  internalStates :: InternalStates
  dzkz :: DzkZone
  zconfig :: DzkZoneConfig
  dzkconfig :: DzkConfig

text \<open>
  The constructor. Its calls into homebridge (the accessory information, the thermostat
  service, the registration of the handlers below) touch nothing of this file's state and
  are left out; \<open>on_get\<close> below is the table of the \<open>"get"\<close> handlers it registers.
\<close>

definition DzkZoneAccessory_constructor ::
  "DzkConfig \<Rightarrow> DzkZoneConfig \<Rightarrow> world \<Rightarrow> DzkZoneAccessory \<times> world" where
  "DzkZoneAccessory_constructor dzkconfig' device w =
     (let w1 = (if DzkZone_ipAddress w = []
                then w\<lparr>DzkZone_ipAddress := ipAddress dzkconfig'\<rparr> else w)
      in case DzkZone_constructor (zone device) w1 of
           (z, w2) \<Rightarrow>
             (\<lparr>internalStates = initial_internalStates, dzkz = z, zconfig = device,
               dzkconfig = dzkconfig'\<rparr>, w2))"

text \<open>Constructing one accessory after the other, as \<open>discoverDevices\<close> does.\<close>

fun construct_all :: "(DzkConfig \<times> DzkZoneConfig) list \<Rightarrow> world \<Rightarrow> world" where
  "construct_all [] w = w"
| "construct_all ((c, dev) # rest) w = construct_all rest (snd (DzkZoneAccessory_constructor c dev w))"

definition getCurrentHeatingCoolingState ::
  "transport \<Rightarrow> DzkZoneAccessory \<Rightarrow> world \<Rightarrow> DzkZoneAccessory \<times> world" where
  "getCurrentHeatingCoolingState net this w =
     (let w1 = emit (LogDebug ''getCurrentHeatingCoolingState'') w;
          w2 = emit (Callback None (Some (currentHeatingCoolingState (internalStates this)))) w1
      in case DzkZone_getCurrentHeatingCoolingState net (dzkz this) w2 of
           (Inr v, z, w3) \<Rightarrow>
             (this\<lparr>dzkz := z,
                    internalStates := (internalStates this)\<lparr>currentHeatingCoolingState := v\<rparr>\<rparr>, w3)
         | (Inl e, z, w3) \<Rightarrow>
             (this\<lparr>dzkz := z\<rparr>,
              emit (LogError ''getCurrentHeatingCoolingState'' (zone (zconfig this)) e) w3))"

definition getTargetHeatingCoolingState ::
  "transport \<Rightarrow> DzkZoneAccessory \<Rightarrow> world \<Rightarrow> DzkZoneAccessory \<times> world" where
  "getTargetHeatingCoolingState net this w =
     (let w1 = emit (LogDebug ''getTargetHeatingCoolingState'') w;
          w2 = emit (Callback None (Some (targetHeatingCoolingState (internalStates this)))) w1
      in case DzkZone_getTargetHeatingCoolingState net w2 of
           (Inr state, w3) \<Rightarrow>
             (this\<lparr>internalStates := (internalStates this)
                      \<lparr>targetHeatingCoolingState := to_hap_target_heatcool_state state\<rparr>\<rparr>, w3)
         | (Inl e, w3) \<Rightarrow>
             (this, emit (LogError ''getTargetHeatingCoolingState'' (zone (zconfig this)) e) w3))"

definition setTargetHeatingCoolingState ::
  "transport \<Rightarrow> number \<Rightarrow> DzkZoneAccessory \<Rightarrow> world \<Rightarrow> DzkZoneAccessory \<times> world" where
  "setTargetHeatingCoolingState net val this w =
     (let w1 = emit (LogDebug ''setTargetHeatingCoolingState'') w;
          w2 = emit (Callback None None) w1
      in case DzkZone_setTargetHeatingCoolingState net (from_hap_target_heatcool_state val) w2 of
           (Inr state, w3) \<Rightarrow>
             (this\<lparr>internalStates := (internalStates this)
                      \<lparr>targetHeatingCoolingState := to_hap_target_heatcool_state state\<rparr>\<rparr>, w3)
         | (Inl e, w3) \<Rightarrow>
             (this, emit (LogError ''setTargetHeatingCoolingState'' (zone (zconfig this)) e) w3))"

definition getCurrentTemperature ::
  "transport \<Rightarrow> DzkZoneAccessory \<Rightarrow> world \<Rightarrow> DzkZoneAccessory \<times> world" where
  "getCurrentTemperature net this w =
     (let w1 = emit (LogDebug ''getCurrentTemperature'') w;
          w2 = emit (Callback None (Some (currentTemperature (internalStates this)))) w1
      in case DzkZone_getCurrentTemperature net (dzkz this) w2 of
           (Inr ctProp, w3) \<Rightarrow>
             (this\<lparr>internalStates := (internalStates this)\<lparr>currentTemperature := f2c ctProp\<rparr>\<rparr>,
              w3)
         | (Inl e, w3) \<Rightarrow>
             (this, emit (LogError ''getCurrentTemperature'' (zone (zconfig this)) e) w3))"

definition getCurrentFanState ::
  "transport \<Rightarrow> DzkZoneAccessory \<Rightarrow> world \<Rightarrow> DzkZoneAccessory \<times> world" where
  "getCurrentFanState net this w =
     (let w1 = emit (LogDebug ''getCurrentFanState'') w;
          w2 = emit (Callback None (Some (currentFanState (internalStates this)))) w1
      in case DzkZone_getCurrentFanState net w2 of
           (Inr ctProp, w3) \<Rightarrow>
             (this\<lparr>internalStates := (internalStates this)
                      \<lparr>currentFanState := to_hap_fanstate ctProp\<rparr>\<rparr>,
              emit (LogInfo (''dzk-fanstate.'' @ string_of_int (zone (zconfig this)))) w3)
         | (Inl e, w3) \<Rightarrow>
             (this, emit (LogError ''getCurrentFanState'' (zone (zconfig this)) e) w3))"

definition getCurrentRelativeHumidity ::
  "transport \<Rightarrow> DzkZoneAccessory \<Rightarrow> world \<Rightarrow> DzkZoneAccessory \<times> world" where
  "getCurrentRelativeHumidity net this w =
     (let w1 = emit (LogDebug ''getCurrentRelativeHumidity'') w;
          w2 = emit (Callback None (Some (relativeHumidity (internalStates this)))) w1
      in case DzkZone_getCurrentRelativeHumidity net (dzkz this) w2 of
           (Inr ctProp, w3) \<Rightarrow>
             (this\<lparr>internalStates := (internalStates this)\<lparr>relativeHumidity := ctProp\<rparr>\<rparr>, w3)
         | (Inl e, w3) \<Rightarrow>
             (this, emit (LogError ''getCurrentRelativeHumidity'' (zone (zconfig this)) e) w3))"

definition getTargetTemperature ::
  "transport \<Rightarrow> DzkZoneAccessory \<Rightarrow> world \<Rightarrow> DzkZoneAccessory \<times> world" where
  "getTargetTemperature net this w =
     (let w1 = emit (LogDebug ''getTargetTemperature'') w;
          w2 = emit (Callback None (Some (targetTemperature (internalStates this)))) w1
      in case DzkZone_getTargetTemperature net (dzkz this) w2 of
           (Inr ctProp, w3) \<Rightarrow>
             (this\<lparr>internalStates := (internalStates this)\<lparr>targetTemperature := f2c ctProp\<rparr>\<rparr>,
              emit (LogInfo (''getTargetTemperature.zone'' @ string_of_int (zone (zconfig this))
                               @ '': '')) w3)
         | (Inl e, w3) \<Rightarrow>
             (this, emit (LogError ''getTargetTemperature'' (zone (zconfig this)) e) w3))"

definition setTargetTemperature ::
  "transport \<Rightarrow> number \<Rightarrow> DzkZoneAccessory \<Rightarrow> world \<Rightarrow> DzkZoneAccessory \<times> world" where
  "setTargetTemperature net val this w =
     (let w1 = emit (LogDebug ''setTargetTemperature'') w;
          w2 = emit (Callback None None) w1
      in case DzkZone_setTargetTemperature net (dzkz this) (c2f val) w2 of
           (Inr r, w3) \<Rightarrow> (this, w3)
         | (Inl e, w3) \<Rightarrow>
             (this, emit (LogError ''setTargetTemperature'' (zone (zconfig this)) e) w3))"

definition getHeatingThresholdTemperature ::
  "transport \<Rightarrow> DzkZoneAccessory \<Rightarrow> world \<Rightarrow> DzkZoneAccessory \<times> world" where
  "getHeatingThresholdTemperature net this w =
     (let w1 = emit (LogDebug ''getHeatingThresholdTemperature'') w;
          w2 = emit (Callback None (Some (heatSetpoint (internalStates this)))) w1
      in case getHeatSetpoint net (dzkz this) w2 of
           (Inr ctProp, w3) \<Rightarrow>
             (this\<lparr>internalStates := (internalStates this)\<lparr>heatSetpoint := f2c ctProp\<rparr>\<rparr>,
              emit (LogInfo (''getHeatingThresholdTemperature.zone''
                               @ string_of_int (zone (zconfig this)) @ '': '')) w3)
         | (Inl e, w3) \<Rightarrow>
             (this, emit (LogError ''getHeatingThresholdTemperature'' (zone (zconfig this)) e) w3))"

definition setHeatingThresholdTemperature ::
  "transport \<Rightarrow> number \<Rightarrow> DzkZoneAccessory \<Rightarrow> world \<Rightarrow> DzkZoneAccessory \<times> world" where
  "setHeatingThresholdTemperature net val this w =
     (let w1 = emit (LogDebug ''setHeatingThresholdTemperature'') w;
          w2 = emit (Callback None None) w1
      in case setHeatSetpoint net (dzkz this) (c2f val) w2 of
           (Inr r, w3) \<Rightarrow> (this, w3)
         | (Inl e, w3) \<Rightarrow>
             (this, emit (LogError ''setHeatingThresholdTemperature'' (zone (zconfig this)) e) w3))"

definition getCoolingThresholdTemperature ::
  "transport \<Rightarrow> DzkZoneAccessory \<Rightarrow> world \<Rightarrow> DzkZoneAccessory \<times> world" where
  "getCoolingThresholdTemperature net this w =
     (let w1 = emit (LogDebug ''getCoolingThresholdTemperature'') w;
          w2 = emit (Callback None (Some (coolSetpoint (internalStates this)))) w1
      in case getCoolSetpoint net (dzkz this) w2 of
           (Inr ctProp, w3) \<Rightarrow>
             (this\<lparr>internalStates := (internalStates this)\<lparr>coolSetpoint := f2c ctProp\<rparr>\<rparr>,
              emit (LogInfo (''getCoolingThresholdTemperature.zone''
                               @ string_of_int (zone (zconfig this)) @ '': '')) w3)
         | (Inl e, w3) \<Rightarrow>
             (this, emit (LogError ''getCoolingThresholdTemperature'' (zone (zconfig this)) e) w3))"

definition setCoolingThresholdTemperature ::
  "transport \<Rightarrow> number \<Rightarrow> DzkZoneAccessory \<Rightarrow> world \<Rightarrow> DzkZoneAccessory \<times> world" where
  "setCoolingThresholdTemperature net val this w =
     (let w1 = emit (LogDebug ''setCoolingThresholdTemperature'') w;
          w2 = emit (Callback None None) w1
      in case setCoolSetpoint net (dzkz this) (c2f val) w2 of
           (Inr r, w3) \<Rightarrow> (this, w3)
         | (Inl e, w3) \<Rightarrow>
             (this, emit (LogError ''setCoolingThresholdTemperature'' (zone (zconfig this)) e) w3))"

definition getTemperatureDisplayUnits ::
  "DzkZoneAccessory \<Rightarrow> world \<Rightarrow> DzkZoneAccessory \<times> world" where
  "getTemperatureDisplayUnits this w =
     (let w1 = emit (LogDebug ''GET TemperatureDisplayUnits'') w
      in (this, emit (Callback None (Some (temperatureDisplayUnits (internalStates this)))) w1))"

definition setTemperatureDisplayUnits ::
  "number \<Rightarrow> DzkZoneAccessory \<Rightarrow> world \<Rightarrow> DzkZoneAccessory \<times> world" where
  "setTemperatureDisplayUnits val this w =
     (let w1 = emit (LogDebug ''SET TemperatureDisplayUnits'') w
      in (this\<lparr>internalStates := (internalStates this)\<lparr>temperatureDisplayUnits := val\<rparr>\<rparr>,
          emit (Callback None None) w1))"

text \<open>
  The \<open>"get"\<close> handlers the constructor registers, by characteristic
  (\<open>.getCharacteristic(...).on("get", this.get....bind(this))\<close>).
\<close>

datatype characteristic =
    CurrentHeatingCoolingState
  | TargetHeatingCoolingState
  | TargetTemperature
  | CurrentTemperature
  | CurrentRelativeHumidity
  | CoolingThresholdTemperature
  | HeatingThresholdTemperature
  | TemperatureDisplayUnits
  | CurrentFanState

fun on_get ::
  "characteristic \<Rightarrow> transport \<Rightarrow> DzkZoneAccessory \<Rightarrow> world \<Rightarrow> DzkZoneAccessory \<times> world" where
  "on_get CurrentHeatingCoolingState net this w = getCurrentHeatingCoolingState net this w"
| "on_get TargetHeatingCoolingState net this w = getTargetHeatingCoolingState net this w"
| "on_get TargetTemperature net this w = getTargetTemperature net this w"
| "on_get CurrentTemperature net this w = getCurrentTemperature net this w"
| "on_get CurrentRelativeHumidity net this w = getCurrentRelativeHumidity net this w"
| "on_get CoolingThresholdTemperature net this w = getCoolingThresholdTemperature net this w"
| "on_get HeatingThresholdTemperature net this w = getHeatingThresholdTemperature net this w"
| "on_get TemperatureDisplayUnits net this w = getTemperatureDisplayUnits this w"
| "on_get CurrentFanState net this w = getCurrentFanState net this w"

subsection \<open>Notions used to state the properties\<close>

text \<open>The field of \<open>internalStates\<close> a getter hands to its callback.\<close>

fun cached :: "characteristic \<Rightarrow> InternalStates \<Rightarrow> number" where
  "cached CurrentHeatingCoolingState s = currentHeatingCoolingState s"
| "cached TargetHeatingCoolingState s = targetHeatingCoolingState s"
| "cached TargetTemperature s = targetTemperature s"
| "cached CurrentTemperature s = currentTemperature s"
| "cached CurrentRelativeHumidity s = relativeHumidity s"
| "cached CoolingThresholdTemperature s = coolSetpoint s"
| "cached HeatingThresholdTemperature s = heatSetpoint s"
| "cached TemperatureDisplayUnits s = temperatureDisplayUnits s"
| "cached CurrentFanState s = currentFanState s"

text \<open>The name a getter logs under.\<close>

fun op_name :: "characteristic \<Rightarrow> string" where
  "op_name CurrentHeatingCoolingState = ''getCurrentHeatingCoolingState''"
| "op_name TargetHeatingCoolingState = ''getTargetHeatingCoolingState''"
| "op_name TargetTemperature = ''getTargetTemperature''"
| "op_name CurrentTemperature = ''getCurrentTemperature''"
| "op_name CurrentRelativeHumidity = ''getCurrentRelativeHumidity''"
| "op_name CoolingThresholdTemperature = ''getCoolingThresholdTemperature''"
| "op_name HeatingThresholdTemperature = ''getHeatingThresholdTemperature''"
| "op_name TemperatureDisplayUnits = ''GET TemperatureDisplayUnits''"
| "op_name CurrentFanState = ''getCurrentFanState''"

text \<open>
  What the \<open>try\<close> block of a getter computes for the cache: the controller's read, with
  the conversion the getter applies to it, or the error the block throws.
\<close>

definition convert :: "(number \<Rightarrow> number) \<Rightarrow> error + number \<Rightarrow> error + number" where
  "convert f r = (case r of Inl e \<Rightarrow> Inl e | Inr v \<Rightarrow> Inr (f v))"

fun refresh :: "characteristic \<Rightarrow> transport \<Rightarrow> DzkZoneAccessory \<Rightarrow> world \<Rightarrow> error + number" where
  "refresh CurrentHeatingCoolingState net this w =
     fst (DzkZone_getCurrentHeatingCoolingState net (dzkz this) w)"
| "refresh TargetHeatingCoolingState net this w =
     convert to_hap_target_heatcool_state (fst (DzkZone_getTargetHeatingCoolingState net w))"
| "refresh TargetTemperature net this w =
     convert f2c (fst (DzkZone_getTargetTemperature net (dzkz this) w))"
| "refresh CurrentTemperature net this w =
     convert f2c (fst (DzkZone_getCurrentTemperature net (dzkz this) w))"
| "refresh CurrentRelativeHumidity net this w =
     fst (DzkZone_getCurrentRelativeHumidity net (dzkz this) w)"
| "refresh CoolingThresholdTemperature net this w =
     convert f2c (fst (getCoolSetpoint net (dzkz this) w))"
| "refresh HeatingThresholdTemperature net this w =
     convert f2c (fst (getHeatSetpoint net (dzkz this) w))"
| "refresh TemperatureDisplayUnits net this w = Inr (temperatureDisplayUnits (internalStates this))"
| "refresh CurrentFanState net this w =
     convert to_hap_fanstate (fst (DzkZone_getCurrentFanState net w))"

fun is_Callback :: "event \<Rightarrow> bool" where
  "is_Callback (Callback err v) = True"
| "is_Callback e = False"

fun is_LogError :: "event \<Rightarrow> bool" where
  "is_LogError (LogError op' z e) = True"
| "is_LogError e = False"

text \<open>A transport that answers every read with \<open>r\<close> and every write with \<open>r'\<close>.\<close>

definition const_transport :: "error + number \<Rightarrow> error + number \<Rightarrow> transport" where
  "const_transport r r' = \<lparr>read_pv = (\<lambda>addr po. r), write_pv = (\<lambda>addr po val. r')\<rparr>"

text \<open>A transport that answers a read of each object from a table, and rejects the rest.\<close>

definition table_transport :: "(string \<times> number) list \<Rightarrow> transport" where
  "table_transport tab =
     \<lparr>read_pv = (\<lambda>addr po. case map_of tab po of None \<Rightarrow> Inl TransportError | Some v \<Rightarrow> Inr v),
      write_pv = (\<lambda>addr po val. Inl TransportError)\<rparr>"

subsection \<open>Concrete inputs\<close>

text \<open>The shared state once the address is configured, with the cached mode \<open>m\<close>.\<close>

definition world_with_mode :: "number \<Rightarrow> world" where
  "world_with_mode m = initial_world\<lparr>DzkZone_ipAddress := ''10.0.0.2'', DzkZone_dzk_opmode := m\<rparr>"

text \<open>The controller of zone 1, as constructed.\<close>

definition zone_one :: DzkZone where
  "zone_one = fst (DzkZone_constructor 1 initial_world)"

text \<open>Two configurations of the platform, and the first accessory of the first one.\<close>

definition example_config :: DzkConfig where
  "example_config =
     \<lparr>ipAddress = ''10.0.0.2'',
      zones = [\<lparr>name = ''Living room'', zone = 1\<rparr>, \<lparr>name = ''Attic'', zone = 7\<rparr>]\<rparr>"

definition other_config :: DzkConfig where
  "other_config = \<lparr>ipAddress = ''10.0.0.99'', zones = [\<lparr>name = ''Office'', zone = 2\<rparr>]\<rparr>"

definition first_construction :: "DzkZoneAccessory \<times> world" where
  "first_construction =
     DzkZoneAccessory_constructor example_config \<lparr>name = ''Living room'', zone = 1\<rparr> initial_world"

text \<open>The keys the methods of \<open>DzkZone\<close> pass to \<open>getZonePv\<close> and \<open>setZonePv\<close>.\<close>

definition zone_keys :: "string list" where
  "zone_keys = [''heating-demand'', ''cooling-demand'', ''room-temperature'', ''humidity'',
                ''heat-set-point'', ''cold-set-point'']"

section \<open>Properties\<close>

lemmas hap_consts =
  TemperatureDisplayUnits_CELSIUS_def TemperatureDisplayUnits_FAHRENHEIT_def
  CurrentHeatingCoolingState_OFF_def CurrentHeatingCoolingState_HEAT_def
  CurrentHeatingCoolingState_COOL_def
  TargetHeatingCoolingState_OFF_def TargetHeatingCoolingState_HEAT_def
  TargetHeatingCoolingState_COOL_def TargetHeatingCoolingState_AUTO_def
  CurrentFanState_INACTIVE_def CurrentFanState_IDLE_def CurrentFanState_BLOWING_AIR_def
  DzkOperationMode_AUTO_def DzkOperationMode_COOL_def DzkOperationMode_HEAT_def
  DzkOperationMode_DRY_def

subsection \<open>The directory and the zone scopes\<close>

lemma string_of_nat_digit: "k < 10 \<Longrightarrow> string_of_nat k = [digit_char k]"
  by (simp add: string_of_nat.simps [of k])

lemma string_of_nat_not_Nil: "string_of_nat k \<noteq> []"
  by (simp add: string_of_nat.simps [of k])

lemma string_of_nat_long: "10 \<le> k \<Longrightarrow> 2 \<le> length (string_of_nat k)"
proof -
  assume "10 \<le> k"
  then have "string_of_nat k = string_of_nat (k div 10) @ [digit_char (k mod 10)]"
    by (simp add: string_of_nat.simps [of k])
  moreover have "1 \<le> length (string_of_nat (k div 10))"
    using string_of_nat_not_Nil [of "k div 10"] by (cases "string_of_nat (k div 10)") auto
  ultimately show ?thesis by simp
qed

lemma small_nat_cases:
  "k < 10 \<Longrightarrow> k = 0 \<or> k = 1 \<or> k = 2 \<or> k = 3 \<or> k = 4 \<or> k = 5 \<or> k = 6 \<or> k = 7 \<or> k = 8 \<or> k = (9::nat)"
  by arith

lemma dzk_objects_zone_nat:
  "dzk_objects (''zone'' @ string_of_nat k) =
     (if k = 1 then Some zone1 else if k = 2 then Some zone2 else if k = 3 then Some zone3
      else if k = 4 then Some zone4 else if k = 5 then Some zone5 else if k = 6 then Some zone6
      else None)"
proof (cases "k < 10")
  case True
  from small_nat_cases [OF True] show ?thesis
    by (elim disjE) (simp_all add: string_of_nat_digit digit_char_def dzk_objects_def dzk_objects_table_def)
next
  case False
  then have "2 \<le> length (string_of_nat k)" by (simp add: string_of_nat_long)
  then obtain a b r where "string_of_nat k = a # b # r"
    by (cases "string_of_nat k"; cases "tl (string_of_nat k)") auto
  with False show ?thesis
    by (simp add: dzk_objects_def dzk_objects_table_def)
qed

lemma dzk_objects_zone_neg:
  "i < 0 \<Longrightarrow> dzk_objects (''zone'' @ string_of_int i) = None"
proof -
  assume "i < 0"
  then obtain a r where "string_of_nat (nat (- i)) = a # r"
    using string_of_nat_not_Nil [of "nat (- i)"] by (cases "string_of_nat (nat (- i))") auto
  with \<open>i < 0\<close> show ?thesis
    by (simp add: string_of_int_def dzk_objects_def dzk_objects_table_def)
qed

lemma dzk_objects_zone:
  "dzk_objects (''zone'' @ string_of_int i) =
     (if i = 1 then Some zone1 else if i = 2 then Some zone2 else if i = 3 then Some zone3
      else if i = 4 then Some zone4 else if i = 5 then Some zone5 else if i = 6 then Some zone6
      else None)"
proof (cases "i < 0")
  case True
  then show ?thesis using dzk_objects_zone_neg [of i] by simp
next
  case False
  then have "string_of_int i = string_of_nat (nat i)" by (simp add: string_of_int_def)
  with False show ?thesis
    using dzk_objects_zone_nat [of "nat i"] by (simp add: nat_eq_iff)
qed

subsection \<open>Mode translation\<close>

text \<open>
  Claim C5. \<open>to_hap_target_heatcool_state\<close> and \<open>from_hap_target_heatcool_state\<close> give a
  result on every number (one of the four HAP target states, one of the device modes AUTO,
  COOL, HEAT), and translating a device mode to HAP and back gives the mode again for AUTO,
  COOL and HEAT, and COOL, not DRY, for DRY.
\<close>

theorem C5_mode_translation_round_trip:
  "to_hap_target_heatcool_state dzk \<in>
     {TargetHeatingCoolingState_OFF, TargetHeatingCoolingState_HEAT,
      TargetHeatingCoolingState_COOL, TargetHeatingCoolingState_AUTO}
   \<and> from_hap_target_heatcool_state hap \<in>
     {DzkOperationMode_AUTO, DzkOperationMode_COOL, DzkOperationMode_HEAT}
   \<and> from_hap_target_heatcool_state (to_hap_target_heatcool_state DzkOperationMode_AUTO)
       = DzkOperationMode_AUTO
   \<and> from_hap_target_heatcool_state (to_hap_target_heatcool_state DzkOperationMode_COOL)
       = DzkOperationMode_COOL
   \<and> from_hap_target_heatcool_state (to_hap_target_heatcool_state DzkOperationMode_HEAT)
       = DzkOperationMode_HEAT
   \<and> from_hap_target_heatcool_state (to_hap_target_heatcool_state DzkOperationMode_DRY)
       = DzkOperationMode_COOL
   \<and> from_hap_target_heatcool_state (to_hap_target_heatcool_state DzkOperationMode_DRY)
       \<noteq> DzkOperationMode_DRY"
  by (simp add: to_hap_target_heatcool_state_def from_hap_target_heatcool_state_def
      DzkOperationMode_AUTO_def DzkOperationMode_COOL_def DzkOperationMode_HEAT_def
      DzkOperationMode_DRY_def TargetHeatingCoolingState_OFF_def TargetHeatingCoolingState_HEAT_def
      TargetHeatingCoolingState_COOL_def TargetHeatingCoolingState_AUTO_def)

subsection \<open>Evaluation of the model\<close>

lemma string_of_int_1: "string_of_int 1 = ''1''"
  by (simp add: string_of_int_def string_of_nat_digit digit_char_def)

lemma DzkZone_constructor_fst:
  "fst (DzkZone_constructor k w) =
     \<lparr>zno = k, dzkob = dzk_objects (''zone'' @ string_of_int k), lastDemand = 0\<rparr>"
  by (simp add: DzkZone_constructor_def Let_def)

lemma zone_one_eval: "zone_one = \<lparr>zno = 1, dzkob = Some zone1, lastDemand = 0\<rparr>"
  unfolding zone_one_def DzkZone_constructor_fst using dzk_objects_zone [of 1] by simp

lemma zone_one_objects:
  "zone_object zone_one ''heat-set-point'' = Inr ''AV:1''"
  "zone_object zone_one ''cold-set-point'' = Inr ''AV:2''"
  "zone_object zone_one ''heating-demand'' = Inr ''AV:16''"
  "zone_object zone_one ''cooling-demand'' = Inr ''AV:15''"
  "zone_object zone_one ''room-temperature'' = Inr ''AI:0''"
  "zone_object zone_one ''humidity'' = Inr ''AV:33''"
  "zone_object zone_one [] = Inl TypeError"
  by (simp_all add: zone_object_def zone_one_eval zone1_def)

lemma zone_object_lastDemand [simp]:
  "zone_object (this\<lparr>lastDemand := x\<rparr>) k = zone_object this k"
  by (simp add: zone_object_def)

lemma getZonePv_found:
  "zone_object this k = Inr po \<Longrightarrow>
   getZonePv net this k w =
     (read_pv net (DzkZone_ipAddress w) po, emit (ReadPV (DzkZone_ipAddress w) po) w)"
  by (simp add: getZonePv_def asyncReadPresentValue_def)


lemma setZonePv_found:
  "zone_object this k = Inr po \<Longrightarrow>
   setZonePv net this k val w =
     (write_pv net (DzkZone_ipAddress w) po val, emit (WritePV (DzkZone_ipAddress w) po val) w)"
  by (simp add: setZonePv_def asyncWritePresentValue_def)

lemma world_with_mode_simps [simp]:
  "DzkZone_ipAddress (world_with_mode m) = ''10.0.0.2''"
  "DzkZone_dzk_opmode (world_with_mode m) = m"
  "trace (world_with_mode m) = []"
  "pending (world_with_mode m) = []"
  "unhandled (world_with_mode m) = []"
  by (simp_all add: world_with_mode_def initial_world_def)

lemma emit_simps [simp]:
  "DzkZone_ipAddress (emit e w) = DzkZone_ipAddress w"
  "DzkZone_dzk_opmode (emit e w) = DzkZone_dzk_opmode w"
  "trace (emit e w) = trace w @ [e]"
  "pending (emit e w) = pending w"
  "unhandled (emit e w) = unhandled w"
  by (simp_all add: emit_def)

lemma const_transport_simps [simp]:
  "read_pv (const_transport r r') addr po = r"
  "write_pv (const_transport r r') addr po val = r'"
  by (simp_all add: const_transport_def)

lemma zone_one_fields [simp]: "zno zone_one = 1" "lastDemand zone_one = 0"
  by (simp_all add: zone_one_eval)

lemma table_transport_simps [simp]:
  "read_pv (table_transport tab) addr po =
     (case map_of tab po of None \<Rightarrow> Inl TransportError | Some v \<Rightarrow> Inr v)"
  "write_pv (table_transport tab) addr po val = Inl TransportError"
  by (simp_all add: table_transport_def)




lemma global_object_opmode: "global_object ''dzk-operation-mode'' = Inr ''MO:0''"
  by (simp add: global_object_def dzk_objects_def dzk_objects_table_def global_scope_def)

lemma global_object_fan: "global_object ''dzk-global-fan'' = Inr ''BV:0''"
  by (simp add: global_object_def dzk_objects_def dzk_objects_table_def global_scope_def)

lemma getTargetHeatingCoolingState_begin_eval:
  "getTargetHeatingCoolingState_begin w =
     (Inr (DzkZone_ipAddress w, ''MO:0''),
      emit (ReadPV (DzkZone_ipAddress w) ''MO:0'')
        (emit (LogDebug ''DzkZone.getTargetHeatingCoolingState'') w))"
  by (simp add: getTargetHeatingCoolingState_begin_def global_object_opmode Let_def)

lemma DzkZone_getTargetHeatingCoolingState_eval:
  "DzkZone_getTargetHeatingCoolingState net w =
     (let w1 = emit (ReadPV (DzkZone_ipAddress w) ''MO:0'')
                 (emit (LogDebug ''DzkZone.getTargetHeatingCoolingState'') w)
      in case read_pv net (DzkZone_ipAddress w) ''MO:0'' of
           Inl e \<Rightarrow> (Inl e, w1)
         | Inr v \<Rightarrow> (Inr v, w1\<lparr>DzkZone_dzk_opmode := v\<rparr>))"
  by (simp add: DzkZone_getTargetHeatingCoolingState_def getTargetHeatingCoolingState_begin_eval
      getTargetHeatingCoolingState_resume_def Let_def)

lemma string_of_int_7: "string_of_int 7 = ''7''"
  by (simp add: string_of_int_def string_of_nat_digit digit_char_def)

lemma detached_ipAddress [simp]:
  "DzkZone_ipAddress (getTargetHeatingCoolingState_detached w) = DzkZone_ipAddress w"
  by (simp add: getTargetHeatingCoolingState_detached_def getTargetHeatingCoolingState_begin_eval)

lemma detached_eval:
  "getTargetHeatingCoolingState_detached w =
     (emit (ReadPV (DzkZone_ipAddress w) ''MO:0'')
        (emit (LogDebug ''DzkZone.getTargetHeatingCoolingState'') w))
     \<lparr>pending := pending w @ [(DzkZone_ipAddress w, ''MO:0'')]\<rparr>"
  by (simp add: getTargetHeatingCoolingState_detached_def getTargetHeatingCoolingState_begin_eval)

lemma DzkZone_constructor_snd:
  "snd (DzkZone_constructor k w) =
     (if DzkZone_dzk_opmode w = - 1
      then getTargetHeatingCoolingState_detached
             (emit (LogDebug (''DzkZone Constructor: zone'' @ string_of_int k)) w)
      else emit (LogDebug (''DzkZone Constructor: zone'' @ string_of_int k)) w)"
  by (simp add: DzkZone_constructor_def Let_def)

lemma DzkZone_constructor_ipAddress [simp]:
  "DzkZone_ipAddress (snd (DzkZone_constructor k w)) = DzkZone_ipAddress w"
  by (simp add: DzkZone_constructor_snd)

lemma DzkZoneAccessory_constructor_ipAddress:
  "DzkZone_ipAddress (snd (DzkZoneAccessory_constructor c dev w)) =
     (if DzkZone_ipAddress w = [] then ipAddress c else DzkZone_ipAddress w)"
  by (simp add: DzkZoneAccessory_constructor_def Let_def split: prod.splits)
    (metis DzkZone_constructor_ipAddress snd_conv world.select_convs(1) world.update_convs(1)
      world.surjective)

lemma construct_all_keeps_address:
  "DzkZone_ipAddress w \<noteq> [] \<Longrightarrow> DzkZone_ipAddress (construct_all cs w) = DzkZone_ipAddress w"
proof (induction cs arbitrary: w)
  case Nil
  then show ?case by simp
next
  case (Cons a cs)
  obtain c dev where a: "a = (c, dev)" by (cases a)
  let ?w = "snd (DzkZoneAccessory_constructor c dev w)"
  have keep: "DzkZone_ipAddress ?w = DzkZone_ipAddress w"
    using Cons.prems by (simp add: DzkZoneAccessory_constructor_ipAddress)
  with Cons.prems have "DzkZone_ipAddress ?w \<noteq> []" by simp
  from Cons.IH [OF this] keep a show ?case by simp
qed

lemma zone_keys_present:
  "list_all (\<lambda>key. map_of zone1 key \<noteq> None) zone_keys"
  "list_all (\<lambda>key. map_of zone2 key \<noteq> None) zone_keys"
  "list_all (\<lambda>key. map_of zone3 key \<noteq> None) zone_keys"
  "list_all (\<lambda>key. map_of zone4 key \<noteq> None) zone_keys"
  "list_all (\<lambda>key. map_of zone5 key \<noteq> None) zone_keys"
  "list_all (\<lambda>key. map_of zone6 key \<noteq> None) zone_keys"
  by (simp_all add: zone_keys_def zone1_def zone2_def zone3_def zone4_def zone5_def zone6_def)

lemma zone_object_scope:
  "dzkob this = Some sc \<Longrightarrow> map_of sc key \<noteq> None \<Longrightarrow> zone_object this key \<noteq> Inl TypeError"
  by (auto simp: zone_object_def)

lemma zone_object_no_scope: "dzkob this = None \<Longrightarrow> zone_object this key = Inl TypeError"
  by (simp add: zone_object_def)

lemma in_range_cases:
  "1 \<le> k \<and> k \<le> 6 \<Longrightarrow> k = 1 \<or> k = 2 \<or> k = 3 \<or> k = 4 \<or> k = 5 \<or> k = (6::int)"
  by arith

lemma constructed_scope_in_range:
  assumes "1 \<le> k \<and> k \<le> 6"
  shows "\<exists>sc. dzk_objects (''zone'' @ string_of_int k) = Some sc
              \<and> list_all (\<lambda>key. map_of sc key \<noteq> None) zone_keys"
  using in_range_cases [OF assms] dzk_objects_zone [of k] zone_keys_present
  by (elim disjE) simp_all

lemma constructed_scope_out_of_range:
  "\<not> (1 \<le> k \<and> k \<le> 6) \<Longrightarrow> dzk_objects (''zone'' @ string_of_int k) = None"
  using dzk_objects_zone [of k] by auto

lemma first_construction_world:
  "snd first_construction =
     \<lparr>DzkZone_ipAddress = ''10.0.0.2'', DzkZone_dzk_opmode = - 1,
      trace = [LogDebug ''DzkZone Constructor: zone1'',
               LogDebug ''DzkZone.getTargetHeatingCoolingState'',
               ReadPV ''10.0.0.2'' ''MO:0''],
      pending = [(''10.0.0.2'', ''MO:0'')], unhandled = []\<rparr>"
  by (simp add: first_construction_def DzkZoneAccessory_constructor_def Let_def
      DzkZone_constructor_def detached_eval initial_world_def example_config_def emit_def
      string_of_int_1 split: prod.splits)

lemma first_construction_accessory:
  "fst first_construction =
     \<lparr>internalStates = initial_internalStates, dzkz = zone_one,
      zconfig = \<lparr>name = ''Living room'', zone = 1\<rparr>, dzkconfig = example_config\<rparr>"
  using dzk_objects_zone [of 1]
  by (simp add: first_construction_def DzkZoneAccessory_constructor_def Let_def
      DzkZone_constructor_def zone_one_eval initial_world_def split: prod.splits)

lemmas getter_defs =
  getCurrentHeatingCoolingState_def getTargetHeatingCoolingState_def getTargetTemperature_def
  getCurrentTemperature_def getCurrentRelativeHumidity_def getCoolingThresholdTemperature_def
  getHeatingThresholdTemperature_def getCurrentFanState_def

lemmas controller_defs =
  DzkZone_getCurrentHeatingCoolingState_def DzkZone_getTargetHeatingCoolingState_eval
  DzkZone_getTargetTemperature_def DzkZone_getCurrentTemperature_def
  DzkZone_getCurrentRelativeHumidity_def getCoolSetpoint_def getHeatSetpoint_def
  DzkZone_getCurrentFanState_def getZonePv_def getGlobalPv_def asyncReadPresentValue_def
  global_object_fan convert_def

lemma on_get_trace:
  assumes "c \<noteq> TemperatureDisplayUnits"
  shows "\<exists>rest. trace (snd (on_get c net this w)) =
           trace w @ LogDebug (op_name c)
             # Callback None (Some (cached c (internalStates this))) # rest
         \<and> \<not> list_ex is_Callback rest
         \<and> (case refresh c net this w of
               Inl e \<Rightarrow> rest \<noteq> [] \<and> last rest = LogError (op_name c) (zone (zconfig this)) e
             | Inr v \<Rightarrow> \<not> list_ex is_LogError rest)"
  using assms
  by (cases c) (auto simp: getter_defs controller_defs Let_def split: sum.splits prod.splits)

lemma on_get_state:
  assumes "c \<noteq> TemperatureDisplayUnits"
  shows "case refresh c net this w of
           Inl e \<Rightarrow> internalStates (fst (on_get c net this w)) = internalStates this
         | Inr v \<Rightarrow> cached c (internalStates (fst (on_get c net this w))) = v"
  using assms
  by (cases c) (auto simp: getter_defs controller_defs Let_def split: sum.splits prod.splits)

lemma refresh_temperature_ok:
  "refresh CurrentTemperature (const_transport (Inr 68) (Inr 0)) (fst first_construction)
     (world_with_mode 1) = Inr 20"
  by (simp add: first_construction_accessory DzkZone_getCurrentTemperature_def getZonePv_found
      zone_one_objects convert_def f2c_def)

lemma refresh_temperature_fails:
  "refresh CurrentTemperature (const_transport (Inl TransportError) (Inr 0)) (fst first_construction)
     (world_with_mode 1) = Inl TransportError"
  by (simp add: first_construction_accessory DzkZone_getCurrentTemperature_def getZonePv_found
      zone_one_objects convert_def)

subsection \<open>Which setpoint the target temperature is\<close>

text \<open>
  Claim C2. Whatever the zone's \<open>lastDemand\<close>, \<open>getTargetTemperature\<close> reads the zone's
  heat-set-point when the cached global mode is HEAT and its cold-set-point when the mode
  is COOL; when the mode is AUTO or DRY it reads the heat-set-point if \<open>lastDemand > 0\<close>
  and the cold-set-point if \<open>lastDemand \<le> 0\<close>, which includes the \<open>lastDemand = 0\<close> of a
  zone that has observed no demand yet. (\<open>w1\<close> is the state after the log line the
  function writes first.)
\<close>

theorem C2_getTargetTemperature_selection:
  assumes "w1 = emit (LogInfo (''DzkZone.getTargetTemperature zone'' @ string_of_int (zno this)
                                @ ''.lastDemand: '')) w"
  shows "(DzkZone_dzk_opmode w = DzkOperationMode_HEAT \<longrightarrow>
            DzkZone_getTargetTemperature net this w = getZonePv net this ''heat-set-point'' w1)
       \<and> (DzkZone_dzk_opmode w = DzkOperationMode_COOL \<longrightarrow>
            DzkZone_getTargetTemperature net this w = getZonePv net this ''cold-set-point'' w1)
       \<and> ((DzkZone_dzk_opmode w = DzkOperationMode_AUTO \<or> DzkZone_dzk_opmode w = DzkOperationMode_DRY)
            \<and> lastDemand this > 0 \<longrightarrow>
            DzkZone_getTargetTemperature net this w = getZonePv net this ''heat-set-point'' w1)
       \<and> ((DzkZone_dzk_opmode w = DzkOperationMode_AUTO \<or> DzkZone_dzk_opmode w = DzkOperationMode_DRY)
            \<and> lastDemand this \<le> 0 \<longrightarrow>
            DzkZone_getTargetTemperature net this w = getZonePv net this ''cold-set-point'' w1)
       \<and> lastDemand (fst (DzkZone_constructor k w0)) = 0"
  using assms
  by (simp add: DzkZone_getTargetTemperature_def switch_bac_ob_def Let_def emit_def
      DzkZone_constructor_fst
      DzkOperationMode_AUTO_def DzkOperationMode_COOL_def DzkOperationMode_HEAT_def
      DzkOperationMode_DRY_def)

theorem C2_getTargetTemperature_selection_witness:
  "trace (snd (DzkZone_getTargetTemperature (const_transport (Inr 70) (Inr 0)) zone_one
          (world_with_mode DzkOperationMode_HEAT)))
     = [LogInfo ''DzkZone.getTargetTemperature zone1.lastDemand: '', ReadPV ''10.0.0.2'' ''AV:1'']
   \<and> trace (snd (DzkZone_getTargetTemperature (const_transport (Inr 70) (Inr 0))
          (zone_one\<lparr>lastDemand := 15\<rparr>) (world_with_mode DzkOperationMode_COOL)))
     = [LogInfo ''DzkZone.getTargetTemperature zone1.lastDemand: '', ReadPV ''10.0.0.2'' ''AV:2'']
   \<and> trace (snd (DzkZone_getTargetTemperature (const_transport (Inr 70) (Inr 0))
          (zone_one\<lparr>lastDemand := 15\<rparr>) (world_with_mode DzkOperationMode_AUTO)))
     = [LogInfo ''DzkZone.getTargetTemperature zone1.lastDemand: '', ReadPV ''10.0.0.2'' ''AV:1'']
   \<and> trace (snd (DzkZone_getTargetTemperature (const_transport (Inr 70) (Inr 0)) zone_one
          (world_with_mode DzkOperationMode_DRY)))
     = [LogInfo ''DzkZone.getTargetTemperature zone1.lastDemand: '', ReadPV ''10.0.0.2'' ''AV:2'']"
  using
    C2_getTargetTemperature_selection [OF refl, of "world_with_mode DzkOperationMode_HEAT"
      "const_transport (Inr 70) (Inr 0)" zone_one]
    C2_getTargetTemperature_selection [OF refl, of "world_with_mode DzkOperationMode_COOL"
      "const_transport (Inr 70) (Inr 0)" "zone_one\<lparr>lastDemand := 15\<rparr>"]
    C2_getTargetTemperature_selection [OF refl, of "world_with_mode DzkOperationMode_AUTO"
      "const_transport (Inr 70) (Inr 0)" "zone_one\<lparr>lastDemand := 15\<rparr>"]
    C2_getTargetTemperature_selection [OF refl, of "world_with_mode DzkOperationMode_DRY"
      "const_transport (Inr 70) (Inr 0)" zone_one]
  by (simp add: getZonePv_found zone_one_objects string_of_int_1)



text \<open>
  Claim C3 says that \<open>setTargetTemperature\<close> writes the setpoint \<open>getTargetTemperature\<close>
  reads. It does not: the result of its \<open>switch\<close> is dropped and the key is chosen from
  \<open>lastDemand\<close> alone. With the mode HEAT and \<open>lastDemand = 0\<close>, zone 1 reads \<open>AV:1\<close> (heat)
  and writes \<open>AV:2\<close> (cold); with the mode COOL and \<open>lastDemand = 15\<close> it reads \<open>AV:2\<close> and
  writes \<open>AV:1\<close>.
\<close>

theorem C3_setTargetTemperature_ignores_mode:
  "trace (snd (DzkZone_setTargetTemperature net zone_one 70 (world_with_mode DzkOperationMode_HEAT)))
     = [LogInfo ''DzkZone.setTargetTemperature zone1.lastDemand: '',
        WritePV ''10.0.0.2'' ''AV:2'' (PlainNumber 70)]
   \<and> trace (snd (DzkZone_getTargetTemperature net zone_one (world_with_mode DzkOperationMode_HEAT)))
     = [LogInfo ''DzkZone.getTargetTemperature zone1.lastDemand: '', ReadPV ''10.0.0.2'' ''AV:1'']
   \<and> trace (snd (DzkZone_setTargetTemperature net (zone_one\<lparr>lastDemand := 15\<rparr>) 70
                   (world_with_mode DzkOperationMode_COOL)))
     = [LogInfo ''DzkZone.setTargetTemperature zone1.lastDemand: '',
        WritePV ''10.0.0.2'' ''AV:1'' (PlainNumber 70)]
   \<and> trace (snd (DzkZone_getTargetTemperature net (zone_one\<lparr>lastDemand := 15\<rparr>)
                   (world_with_mode DzkOperationMode_COOL)))
     = [LogInfo ''DzkZone.getTargetTemperature zone1.lastDemand: '', ReadPV ''10.0.0.2'' ''AV:2'']"
  by (simp add: DzkZone_setTargetTemperature_def DzkZone_getTargetTemperature_def Let_def
      switch_bac_ob_def hap_consts setZonePv_found getZonePv_found zone_one_objects string_of_int_1)

subsection \<open>The current state from the demands\<close>




subsection \<open>Construction\<close>

text \<open>
  Claim C6. The shared address starts empty; a construction of \<open>DzkZoneAccessory\<close> that
  finds it empty copies the configured \<open>ipAddress\<close> into it, and one that finds it
  non-empty leaves it as it is. So no sequence of constructions, whatever their
  configurations, changes an address that is non-empty, and after a first construction
  with a non-empty configured address every sequence of further constructions ends with
  that address.
\<close>

theorem C6_address_set_once:
  "DzkZone_ipAddress initial_world = []
   \<and> (DzkZone_ipAddress w = [] \<longrightarrow>
        DzkZone_ipAddress (snd (DzkZoneAccessory_constructor c dev w)) = ipAddress c)
   \<and> (DzkZone_ipAddress w \<noteq> [] \<longrightarrow>
        DzkZone_ipAddress (snd (DzkZoneAccessory_constructor c dev w)) = DzkZone_ipAddress w)
   \<and> (DzkZone_ipAddress w \<noteq> [] \<longrightarrow>
        DzkZone_ipAddress (construct_all cs w) = DzkZone_ipAddress w)
   \<and> (DzkZone_ipAddress w = [] \<and> ipAddress c \<noteq> [] \<longrightarrow>
        DzkZone_ipAddress (construct_all ((c, dev) # cs) w) = ipAddress c)"
proof -
  have a: "DzkZone_ipAddress initial_world = []" by (simp add: initial_world_def)
  have b: "DzkZone_ipAddress w = [] \<longrightarrow>
        DzkZone_ipAddress (snd (DzkZoneAccessory_constructor c dev w)) = ipAddress c"
    by (simp add: DzkZoneAccessory_constructor_ipAddress)
  have c: "DzkZone_ipAddress w \<noteq> [] \<longrightarrow>
        DzkZone_ipAddress (snd (DzkZoneAccessory_constructor c dev w)) = DzkZone_ipAddress w"
    by (simp add: DzkZoneAccessory_constructor_ipAddress)
  have d: "DzkZone_ipAddress w \<noteq> [] \<longrightarrow>
        DzkZone_ipAddress (construct_all cs w) = DzkZone_ipAddress w"
    by (simp add: construct_all_keeps_address)
  have e: "DzkZone_ipAddress w = [] \<and> ipAddress c \<noteq> [] \<longrightarrow>
        DzkZone_ipAddress (construct_all ((c, dev) # cs) w) = ipAddress c"
  proof
    assume h: "DzkZone_ipAddress w = [] \<and> ipAddress c \<noteq> []"
    let ?w = "snd (DzkZoneAccessory_constructor c dev w)"
    from h have "DzkZone_ipAddress ?w = ipAddress c"
      by (simp add: DzkZoneAccessory_constructor_ipAddress)
    with h construct_all_keeps_address [of ?w cs]
    show "DzkZone_ipAddress (construct_all ((c, dev) # cs) w) = ipAddress c" by simp
  qed
  from a b c d e show ?thesis by simp
qed

theorem C6_address_set_once_witness:
  "DzkZone_ipAddress
     (construct_all
        [(example_config, \<lparr>name = ''Living room'', zone = 1\<rparr>),
         (other_config, \<lparr>name = ''Office'', zone = 2\<rparr>),
         (example_config, \<lparr>name = ''Attic'', zone = 7\<rparr>)] initial_world) = ''10.0.0.2''"
proof -
  have h: "DzkZone_ipAddress initial_world = [] \<and> ipAddress example_config \<noteq> []"
    by (simp add: initial_world_def example_config_def)
  from C6_address_set_once [of initial_world example_config "\<lparr>name = ''Living room'', zone = 1\<rparr>"
      "[(other_config, \<lparr>name = ''Office'', zone = 2\<rparr>),
        (example_config, \<lparr>name = ''Attic'', zone = 7\<rparr>)]"] h
  have "DzkZone_ipAddress
     (construct_all
        [(example_config, \<lparr>name = ''Living room'', zone = 1\<rparr>),
         (other_config, \<lparr>name = ''Office'', zone = 2\<rparr>),
         (example_config, \<lparr>name = ''Attic'', zone = 7\<rparr>)] initial_world) = ipAddress example_config"
    by blast
  then show ?thesis by (simp add: example_config_def)
qed

text \<open>
  Claim C8, as the code has it. Constructing a \<open>DzkZone\<close> raises nothing for any zone
  number: it returns the controller with \<open>dzkob\<close> set to what the directory has under
  \<open>"zone" + zno\<close>. For a zone number in 1..6 that is the zone's scope, which has every
  key the controller uses. For any other zone number it is \<open>undefined\<close>, and every
  present-value read or write of that controller then throws a \<open>TypeError\<close> when it is
  made, before any request to the transport.
\<close>

theorem C8_construction_never_fails:
  "fst (DzkZone_constructor k w) =
     \<lparr>zno = k, dzkob = dzk_objects (''zone'' @ string_of_int k), lastDemand = 0\<rparr>
   \<and> (1 \<le> k \<and> k \<le> 6 \<longrightarrow>
         dzkob (fst (DzkZone_constructor k w)) \<noteq> None
       \<and> (\<forall>key \<in> set zone_keys. zone_object (fst (DzkZone_constructor k w)) key \<noteq> Inl TypeError))
   \<and> (\<not> (1 \<le> k \<and> k \<le> 6) \<longrightarrow>
         dzkob (fst (DzkZone_constructor k w)) = None
       \<and> getZonePv net (fst (DzkZone_constructor k w)) key' w' = (Inl TypeError, w')
       \<and> setZonePv net (fst (DzkZone_constructor k w)) key' val w' = (Inl TypeError, w'))"
proof (intro conjI impI)
  show "fst (DzkZone_constructor k w) =
     \<lparr>zno = k, dzkob = dzk_objects (''zone'' @ string_of_int k), lastDemand = 0\<rparr>"
    by (rule DzkZone_constructor_fst)
next
  assume r: "1 \<le> k \<and> k \<le> 6"
  from constructed_scope_in_range [OF r]
  show "dzkob (fst (DzkZone_constructor k w)) \<noteq> None"
    by (auto simp: DzkZone_constructor_fst)
next
  assume r: "1 \<le> k \<and> k \<le> 6"
  from constructed_scope_in_range [OF r] obtain sc
    where sc: "dzk_objects (''zone'' @ string_of_int k) = Some sc"
      and keys: "list_all (\<lambda>key. map_of sc key \<noteq> None) zone_keys"
    by blast
  from sc have "dzkob (fst (DzkZone_constructor k w)) = Some sc"
    unfolding DzkZone_constructor_fst by simp
  then have "map_of sc key \<noteq> None \<Longrightarrow>
      zone_object (fst (DzkZone_constructor k w)) key \<noteq> Inl TypeError" for key
    by (rule zone_object_scope)
  with keys show "\<forall>key \<in> set zone_keys. zone_object (fst (DzkZone_constructor k w)) key \<noteq> Inl TypeError"
    unfolding list_all_iff by blast
next
  assume r: "\<not> (1 \<le> k \<and> k \<le> 6)"
  from constructed_scope_out_of_range [OF r]
  show none: "dzkob (fst (DzkZone_constructor k w)) = None"
    unfolding DzkZone_constructor_fst by simp
  show "getZonePv net (fst (DzkZone_constructor k w)) key' w' = (Inl TypeError, w')"
    by (simp add: getZonePv_def zone_object_no_scope [OF none])
  show "setZonePv net (fst (DzkZone_constructor k w)) key' val w' = (Inl TypeError, w')"
    by (simp add: setZonePv_def zone_object_no_scope [OF none])
qed

theorem C8_construction_never_fails_witness:
  "dzkob (fst (DzkZone_constructor 3 initial_world)) \<noteq> None
   \<and> zone_object (fst (DzkZone_constructor 3 initial_world)) ''room-temperature'' \<noteq> Inl TypeError
   \<and> dzkob (fst (DzkZone_constructor 7 initial_world)) = None
   \<and> getZonePv (const_transport (Inr 70) (Inr 70)) (fst (DzkZone_constructor 7 initial_world))
        ''room-temperature'' (world_with_mode 1) = (Inl TypeError, world_with_mode 1)"
proof -
  have in3: "(1::int) \<le> 3 \<and> (3::int) \<le> 6" by simp
  have out7: "\<not> ((1::int) \<le> 7 \<and> (7::int) \<le> 6)" by simp
  have key: "''room-temperature'' \<in> set zone_keys" by (simp add: zone_keys_def)
  from C8_construction_never_fails [of 3 initial_world] in3 key
  have a: "dzkob (fst (DzkZone_constructor 3 initial_world)) \<noteq> None
   \<and> zone_object (fst (DzkZone_constructor 3 initial_world)) ''room-temperature'' \<noteq> Inl TypeError"
    by blast
  from C8_construction_never_fails [of 7 initial_world "const_transport (Inr 70) (Inr 70)"
      "''room-temperature''" "world_with_mode 1"] out7
  have b: "dzkob (fst (DzkZone_constructor 7 initial_world)) = None
   \<and> getZonePv (const_transport (Inr 70) (Inr 70)) (fst (DzkZone_constructor 7 initial_world))
        ''room-temperature'' (world_with_mode 1) = (Inl TypeError, world_with_mode 1)"
    by blast
  from a b show ?thesis by simp
qed

text \<open>
  As claim C8 is worded (construction fails for a zone number outside 1..6) it does not
  hold: constructing zone 7 returns a controller, with no scope, and no error is raised
  or left unhandled.
\<close>

theorem C8_zone_seven_counterexample:
  "DzkZone_constructor 7 (world_with_mode 3) =
     (\<lparr>zno = 7, dzkob = None, lastDemand = 0\<rparr>,
      emit (LogDebug ''DzkZone Constructor: zone7'') (world_with_mode 3))
   \<and> unhandled (snd (DzkZone_constructor 7 (world_with_mode 3))) = []"
  using dzk_objects_zone [of 7]
  by (simp add: DzkZone_constructor_def Let_def string_of_int_7)

text \<open>
  The first construction of a zone starts the fetch of the global mode and nobody awaits
  it. Claim C7 says that a transport error of that fetch is caught and logged. When the
  request is rejected the construction has completed and the mode stays \<open>-1\<close>, as the
  claim says, but the trace has no error line and the error is left as the rejection of
  a promise without a handler; the getter of the accessory, which awaits the same call
  inside \<open>try\<close>/\<open>catch\<close>, does log it.
\<close>

theorem C7_eager_fetch_rejection_unhandled:
  "pending (snd first_construction) = [(''10.0.0.2'', ''MO:0'')]
   \<and> trace (settle_detached (Inl TransportError) (snd first_construction))
       = [LogDebug ''DzkZone Constructor: zone1'',
          LogDebug ''DzkZone.getTargetHeatingCoolingState'',
          ReadPV ''10.0.0.2'' ''MO:0'']
   \<and> unhandled (settle_detached (Inl TransportError) (snd first_construction)) = [TransportError]
   \<and> DzkZone_dzk_opmode (settle_detached (Inl TransportError) (snd first_construction)) = - 1
   \<and> trace (snd (getTargetHeatingCoolingState (const_transport (Inl TransportError) (Inr 0))
                   (fst first_construction) (world_with_mode (- 1))))
       = [LogDebug ''getTargetHeatingCoolingState'',
          Callback None (Some 0),
          LogDebug ''DzkZone.getTargetHeatingCoolingState'',
          ReadPV ''10.0.0.2'' ''MO:0'',
          LogError ''getTargetHeatingCoolingState'' 1 TransportError]"
  by (simp add: first_construction_world first_construction_accessory settle_detached_def
      getTargetHeatingCoolingState_resume_def getTargetHeatingCoolingState_def Let_def
      DzkZone_getTargetHeatingCoolingState_eval initial_internalStates_def hap_consts)

subsection \<open>Writes and the access mode\<close>

text \<open>
  Claim C9, as the code has it. The access mode \<open>rw\<close> of a directory entry is never
  consulted: a present-value write against any entry of the zone's scope, read-only or
  not, hands one write request for the entry's object to the transport and returns the
  transport's outcome.
\<close>

theorem C9_write_ignores_access_mode:
  assumes "dzkob this = Some sc" and "map_of sc key = Some ob"
  shows "setZonePv net this key val w =
           (write_pv net (DzkZone_ipAddress w) (ob_n ob) val,
            emit (WritePV (DzkZone_ipAddress w) (ob_n ob) val) w)"
  using assms by (simp add: setZonePv_def zone_object_def asyncWritePresentValue_def)

theorem C9_write_ignores_access_mode_witness:
  "setZonePv (const_transport (Inr 0) (Inr 70)) zone_one ''humidity'' (PlainNumber 70)
     (world_with_mode 1)
   = (Inr 70, emit (WritePV ''10.0.0.2'' ''AV:33'' (PlainNumber 70)) (world_with_mode 1))"
proof -
  have s: "dzkob zone_one = Some zone1" by (simp add: zone_one_eval)
  have k: "map_of zone1 ''humidity'' = Some \<lparr>ob_n = ''AV:33'', ob_d = ''Z1 humidity'', ob_rw = ''R''\<rparr>"
    by (simp add: zone1_def)
  from C9_write_ignores_access_mode [OF s k, of "const_transport (Inr 0) (Inr 70)"
      "PlainNumber 70" "world_with_mode 1"]
  show ?thesis by simp
qed

text \<open>
  As claim C9 is worded (a write against a read-only entry fails before any transport
  write) it does not hold: the room temperature of zone 1 has \<open>rw = "R"\<close>, and a write
  against it reaches the transport and returns what the transport answers.
\<close>

theorem C9_read_only_write_counterexample:
  "map_of zone1 ''room-temperature''
     = Some \<lparr>ob_n = ''AI:0'', ob_d = ''Z1 Room temperature'', ob_rw = ''R''\<rparr>
   \<and> setZonePv (const_transport (Inr 0) (Inr 70)) zone_one ''room-temperature'' (PlainNumber 70)
        (world_with_mode 1)
     = (Inr 70, emit (WritePV ''10.0.0.2'' ''AI:0'' (PlainNumber 70)) (world_with_mode 1))"
  by (simp add: setZonePv_found zone_one_objects zone1_def)

subsection \<open>The getters of the accessory\<close>

text \<open>
  Claim C4. Every getter of the accessory that a network read backs (all but the display
  units) first calls the homebridge callback, without an error, with the value its field
  of \<open>internalStates\<close> held when it was called, which is the constructor's default for a
  new accessory; this is before any request of the call reaches the transport, and the
  call invokes the callback only that once. If the refresh then throws, \<open>internalStates\<close> is
  unchanged and the error is the last line logged. If it succeeds nothing is logged as an
  error, the field holds the refreshed value, and the next call hands that value to its
  callback.
\<close>

theorem C4_stale_read_then_refresh:
  assumes "c \<noteq> TemperatureDisplayUnits"
    and "on_get c net this w = (this', w')"
  shows "internalStates (fst (DzkZoneAccessory_constructor cfg dev w0)) = initial_internalStates
       \<and> (\<exists>rest. trace w' =
             trace w @ LogDebug (op_name c)
               # Callback None (Some (cached c (internalStates this))) # rest
           \<and> \<not> list_ex is_Callback rest
           \<and> (\<forall>e. refresh c net this w = Inl e \<longrightarrow>
                  internalStates this' = internalStates this
                \<and> rest \<noteq> [] \<and> last rest = LogError (op_name c) (zone (zconfig this)) e)
           \<and> (\<forall>v. refresh c net this w = Inr v \<longrightarrow>
                  \<not> list_ex is_LogError rest
                \<and> cached c (internalStates this') = v
                \<and> (\<exists>rest2. trace (snd (on_get c net2 this' w')) =
                      trace w' @ LogDebug (op_name c) # Callback None (Some v) # rest2)))"
proof -
  have init: "internalStates (fst (DzkZoneAccessory_constructor cfg dev w0)) = initial_internalStates"
    by (simp add: DzkZoneAccessory_constructor_def Let_def split: prod.splits)
  from on_get_trace [OF assms(1), of net this w] assms(2)
  obtain rest where tr: "trace w' =
             trace w @ LogDebug (op_name c)
               # Callback None (Some (cached c (internalStates this))) # rest"
    and cb: "\<not> list_ex is_Callback rest"
    and out: "case refresh c net this w of
               Inl e \<Rightarrow> rest \<noteq> [] \<and> last rest = LogError (op_name c) (zone (zconfig this)) e
             | Inr v \<Rightarrow> \<not> list_ex is_LogError rest"
    by auto
  from on_get_state [OF assms(1), of net this w] assms(2)
  have st: "case refresh c net this w of
           Inl e \<Rightarrow> internalStates this' = internalStates this
         | Inr v \<Rightarrow> cached c (internalStates this') = v"
    by (simp split: sum.splits)
  have fail: "\<forall>e. refresh c net this w = Inl e \<longrightarrow>
                  internalStates this' = internalStates this
                \<and> rest \<noteq> [] \<and> last rest = LogError (op_name c) (zone (zconfig this)) e"
    using out st by (simp split: sum.splits)
  have ok: "\<forall>v. refresh c net this w = Inr v \<longrightarrow>
                  \<not> list_ex is_LogError rest
                \<and> cached c (internalStates this') = v
                \<and> (\<exists>rest2. trace (snd (on_get c net2 this' w')) =
                      trace w' @ LogDebug (op_name c) # Callback None (Some v) # rest2)"
  proof (intro allI impI)
    fix v
    assume r: "refresh c net this w = Inr v"
    with out st have a: "\<not> list_ex is_LogError rest" and b: "cached c (internalStates this') = v"
      by (simp_all split: sum.splits)
    from on_get_trace [OF assms(1), of net2 this' w'] b
    have "\<exists>rest2. trace (snd (on_get c net2 this' w')) =
                      trace w' @ LogDebug (op_name c) # Callback None (Some v) # rest2"
      by auto
    with a b show "\<not> list_ex is_LogError rest
                \<and> cached c (internalStates this') = v
                \<and> (\<exists>rest2. trace (snd (on_get c net2 this' w')) =
                      trace w' @ LogDebug (op_name c) # Callback None (Some v) # rest2)"
      by simp
  qed
  from init tr cb fail ok show ?thesis by blast
qed

theorem C4_stale_read_then_refresh_witness:
  "take 2 (trace (snd (on_get CurrentTemperature (const_transport (Inr 68) (Inr 0))
                         (fst first_construction) (world_with_mode 1))))
     = [LogDebug ''getCurrentTemperature'', Callback None (Some 20.5)]
   \<and> currentTemperature (internalStates (fst (on_get CurrentTemperature
        (const_transport (Inr 68) (Inr 0)) (fst first_construction) (world_with_mode 1)))) = 20
   \<and> internalStates (fst (on_get CurrentTemperature
        (const_transport (Inl TransportError) (Inr 0)) (fst first_construction) (world_with_mode 1)))
     = initial_internalStates"
proof -
  have ne: "CurrentTemperature \<noteq> TemperatureDisplayUnits" by simp
  have cur: "cached CurrentTemperature (internalStates (fst first_construction)) = 20.5"
    by (simp add: first_construction_accessory initial_internalStates_def)
  have ini: "internalStates (fst first_construction) = initial_internalStates"
    by (simp add: first_construction_accessory)
  obtain a1 w1 where e1: "on_get CurrentTemperature (const_transport (Inr 68) (Inr 0))
                         (fst first_construction) (world_with_mode 1) = (a1, w1)"
    by (cases "on_get CurrentTemperature (const_transport (Inr 68) (Inr 0))
                         (fst first_construction) (world_with_mode 1)")
  obtain a2 w2 where e2: "on_get CurrentTemperature (const_transport (Inl TransportError) (Inr 0))
                         (fst first_construction) (world_with_mode 1) = (a2, w2)"
    by (cases "on_get CurrentTemperature (const_transport (Inl TransportError) (Inr 0))
                         (fst first_construction) (world_with_mode 1)")
  from C4_stale_read_then_refresh [OF ne e1]
  obtain rest where tr: "trace w1 =
             trace (world_with_mode 1) @ LogDebug (op_name CurrentTemperature)
               # Callback None (Some (cached CurrentTemperature
                   (internalStates (fst first_construction)))) # rest"
    and ok: "\<forall>v. refresh CurrentTemperature (const_transport (Inr 68) (Inr 0))
                  (fst first_construction) (world_with_mode 1) = Inr v \<longrightarrow>
                cached CurrentTemperature (internalStates a1) = v"
    by blast
  have "trace w1 = [LogDebug ''getCurrentTemperature'', Callback None (Some 20.5)] @ rest"
    unfolding tr cur by simp
  then have t1: "take 2 (trace w1) = [LogDebug ''getCurrentTemperature'', Callback None (Some 20.5)]"
    by simp
  from ok refresh_temperature_ok have "cached CurrentTemperature (internalStates a1) = 20"
    by blast
  with t1 have p1: "take 2 (trace w1) = [LogDebug ''getCurrentTemperature'', Callback None (Some 20.5)]
          \<and> currentTemperature (internalStates a1) = 20"
    by simp
  from C4_stale_read_then_refresh [OF ne e2] refresh_temperature_fails
  have "internalStates a2 = internalStates (fst first_construction)"
    by blast
  with ini have p2: "internalStates a2 = initial_internalStates"
    by simp
  from p1 p2 e1 e2 show ?thesis by simp
qed

end
